theory Spec2Isabelle
  imports Main
begin

section \<open>Block data: values, dict objects and the object store\<close>

text \<open>
  The module \<^verbatim>\<open>prefect/orion/models/block_data.py\<close> moves Python dicts between a caller-facing
  flat form and a stored record, and encrypts the payload with Fernet.

  Plain data is the type \<open>pyval\<close>: \<^verbatim>\<open>None\<close>, booleans, integers, strings, lists, tuples
  and dicts whose keys are field names. A dict is a map from field names to values, so that
  equality is Python's \<^verbatim>\<open>==\<close> on dicts (order of insertion is not observed). A tuple is
  not a list: \<^verbatim>\<open>(1, 2) == [1, 2]\<close> is false. A Python \<^verbatim>\<open>str\<close> is represented by its UTF-8
  bytes, a \<^verbatim>\<open>bytes\<close> value by its bytes, both as \<open>string\<close>. Floats are left out.
\<close>

type_synonym bytes = string

datatype pyval =
    PNone
  | PBool bool
  | PInt int
  | PStr string
  | PList "pyval list"
  | PTuple "pyval list"
  | PDict "string \<Rightarrow> pyval option"

text \<open>
  \<^verbatim>\<open>pack_blockdata\<close> and \<^verbatim>\<open>unpack_blockdata\<close> mutate the dicts they are given, and
  \<^verbatim>\<open>pack_blockdata\<close> stores its argument, not a copy, in its result. The dict objects they
  work on therefore live in an explicit store: a list of objects, an object being addressed by
  its index, a new object being appended. A field of an object holds plain data or a reference
  to another dict object of the store. A Python reference always points to a live object, so
  the statements below are about addresses \<open>a\<close> with \<open>a < length h\<close>.

  A call that raises returns the exception alone (\<open>Inl\<close>): what it had written before
  raising is not part of the result.
\<close>

datatype slot = Val pyval | Ref nat

type_synonym dictobj = "string \<Rightarrow> slot option"

type_synonym heap = "dictobj list"

datatype error =
    KeyError string
  | TypeError
  | AttributeError
  | ValueError
  | UnicodeDecodeError
  | JSONDecodeError
  | InvalidToken
  | IntegrityError

text \<open>\<^verbatim>\<open>dict()\<close>: a new empty dict object.\<close>

definition dict_new :: "heap \<Rightarrow> nat \<times> heap" where
  "dict_new h = (length h, h @ [Map.empty])"

text \<open>\<^verbatim>\<open>d[k]\<close>, raising \<^verbatim>\<open>KeyError\<close> when \<^verbatim>\<open>k\<close> is missing.\<close>

definition dict_getitem :: "heap \<Rightarrow> nat \<Rightarrow> string \<Rightarrow> error + slot" where
  "dict_getitem h d k = (case (h ! d) k of None \<Rightarrow> Inl (KeyError k) | Some v \<Rightarrow> Inr v)"

text \<open>\<^verbatim>\<open>d[k] = v\<close>.\<close>

definition dict_setitem :: "heap \<Rightarrow> nat \<Rightarrow> string \<Rightarrow> slot \<Rightarrow> heap" where
  "dict_setitem h d k v = h[d := (h ! d)(k \<mapsto> v)]"

text \<open>\<^verbatim>\<open>d.pop(k)\<close>, raising \<^verbatim>\<open>KeyError\<close> when \<^verbatim>\<open>k\<close> is missing.\<close>

definition dict_pop :: "heap \<Rightarrow> nat \<Rightarrow> string \<Rightarrow> error + (slot \<times> heap)" where
  "dict_pop h d k =
     (case (h ! d) k of
        None \<Rightarrow> Inl (KeyError k)
      | Some v \<Rightarrow> Inr (v, h[d := (h ! d)(k := None)]))"

text \<open>\<^verbatim>\<open>d.pop(k, default)\<close>.\<close>

definition dict_pop_default :: "heap \<Rightarrow> nat \<Rightarrow> string \<Rightarrow> slot \<Rightarrow> slot \<times> heap" where
  "dict_pop_default h d k dflt =
     (case (h ! d) k of
        None \<Rightarrow> (dflt, h)
      | Some v \<Rightarrow> (v, h[d := (h ! d)(k := None)]))"

text \<open>
  The fields of a value used as a mapping: a reference to a dict object of the store, or a
  plain dict. Anything else is not a mapping.
\<close>

definition as_mapping :: "heap \<Rightarrow> slot \<Rightarrow> dictobj option" where
  "as_mapping h v =
     (case v of
        Ref a \<Rightarrow> (if a < length h then Some (h ! a) else None)
      | Val (PDict m) \<Rightarrow> Some (map_option Val \<circ> m)
      | Val _ \<Rightarrow> None)"

text \<open>\<^verbatim>\<open>dict(**v)\<close>: a new dict object with the fields of \<^verbatim>\<open>v\<close>, a \<^verbatim>\<open>TypeError\<close> when
  \<^verbatim>\<open>v\<close> is not a mapping.\<close>

definition dict_copy :: "heap \<Rightarrow> slot \<Rightarrow> error + (nat \<times> heap)" where
  "dict_copy h v =
     (case as_mapping h v of
        None \<Rightarrow> Inl TypeError
      | Some m \<Rightarrow> Inr (length h, h @ [m]))"

subsection \<open>pack\_blockdata and unpack\_blockdata\<close>

text \<open>
  \<^verbatim>\<open>
  def pack_blockdata(raw_block):
      blockdata = dict()
      blockdata["name"] = raw_block.pop("blockname")
      blockdata["blockref"] = raw_block.pop("blockref")
      raw_block.pop("blockid", None)
      blockdata["data"] = raw_block
      return blockdata
  \<close>
  The argument is the address of the caller's dict; the result is the address of the new
  record and the store after the call.
\<close>

definition pack_blockdata :: "heap \<Rightarrow> nat \<Rightarrow> error + (nat \<times> heap)" where
  "pack_blockdata h raw_block =
     (case dict_new h of (blockdata, h0) \<Rightarrow>
       (case dict_pop h0 raw_block ''blockname'' of
          Inl e \<Rightarrow> Inl e
        | Inr (n, h1) \<Rightarrow>
           (case dict_pop (dict_setitem h1 blockdata ''name'' n) raw_block ''blockref'' of
              Inl e \<Rightarrow> Inl e
            | Inr (r, h2) \<Rightarrow>
               (case dict_pop_default (dict_setitem h2 blockdata ''blockref'' r) raw_block
                       ''blockid'' (Val PNone) of
                  (_, h3) \<Rightarrow>
                    Inr (blockdata, dict_setitem h3 blockdata ''data'' (Ref raw_block))))))"

text \<open>
  \<^verbatim>\<open>
  def unpack_blockdata(blockdata):
      block = dict(**blockdata["data"])
      block["blockname"] = blockdata.pop("name", None)
      block["blockref"] = blockdata.pop("blockref", None)
      block["blockid"] = blockdata.pop("blockid", None)
      return block
  \<close>
\<close>

definition unpack_blockdata :: "heap \<Rightarrow> nat \<Rightarrow> error + (nat \<times> heap)" where
  "unpack_blockdata h blockdata =
     (case dict_getitem h blockdata ''data'' of
        Inl e \<Rightarrow> Inl e
      | Inr d \<Rightarrow>
         (case dict_copy h d of
            Inl e \<Rightarrow> Inl e
          | Inr (block, h0) \<Rightarrow>
             (case dict_pop_default h0 blockdata ''name'' (Val PNone) of (n, h1) \<Rightarrow>
               (case dict_pop_default (dict_setitem h1 block ''blockname'' n) blockdata
                       ''blockref'' (Val PNone) of (r, h2) \<Rightarrow>
                 (case dict_pop_default (dict_setitem h2 block ''blockref'' r) blockdata
                         ''blockid'' (Val PNone) of (i, h3) \<Rightarrow>
                    Inr (block, dict_setitem h3 block ''blockid'' i))))))"

text \<open>The field of a record that \<^verbatim>\<open>pop(k, None)\<close> reads: its value, \<^verbatim>\<open>None\<close> when missing.\<close>

definition field_or_none :: "dictobj \<Rightarrow> string \<Rightarrow> slot" where
  "field_or_none m k = (case m k of None \<Rightarrow> Val PNone | Some v \<Rightarrow> v)"

section \<open>The libraries and the world the module runs in\<close>

text \<open>
  The module calls \<^verbatim>\<open>cryptography.fernet.Fernet\<close>, \<^verbatim>\<open>json\<close> and the UTF-8 codec of
  \<^verbatim>\<open>str.encode\<close> / \<^verbatim>\<open>bytes.decode\<close>. They are not part of the repository; the embedding takes
  them as a parameter:
  \<^item> \<open>Fernet_key_ok k\<close>: the constructor \<^verbatim>\<open>Fernet(k)\<close> accepts \<open>k\<close> (it raises
    \<^verbatim>\<open>ValueError\<close> otherwise);
  \<^item> \<open>Fernet_generate_key n\<close>: the key \<^verbatim>\<open>Fernet.generate_key()\<close> returns when the operating
    system's randomness stands at position \<open>n\<close>;
  \<^item> \<open>Fernet_encrypt k n m\<close>: the token \<^verbatim>\<open>Fernet(k).encrypt(m)\<close> returns when clock and
    randomness stand at position \<open>n\<close>;
  \<^item> \<open>Fernet_decrypt k t\<close>: the plaintext \<^verbatim>\<open>Fernet(k).decrypt(t)\<close> returns, \<open>None\<close> when it
    raises \<^verbatim>\<open>InvalidToken\<close>;
  \<^item> \<open>json_dumps v\<close>: the text \<^verbatim>\<open>json.dumps(v)\<close> returns, \<open>None\<close> when it raises
    \<^verbatim>\<open>TypeError\<close>;
  \<^item> \<open>json_loads s\<close>: the value \<^verbatim>\<open>json.loads(s)\<close> returns, \<open>None\<close> when it raises
    \<^verbatim>\<open>JSONDecodeError\<close>;
  \<^item> \<open>utf8_ok b\<close>: the bytes \<open>b\<close> are well-formed UTF-8, so that \<^verbatim>\<open>b.decode()\<close> returns.
\<close>

record libs =
  Fernet_key_ok :: "bytes \<Rightarrow> bool"
  Fernet_generate_key :: "nat \<Rightarrow> bytes"
  Fernet_encrypt :: "bytes \<Rightarrow> nat \<Rightarrow> bytes \<Rightarrow> bytes"
  Fernet_decrypt :: "bytes \<Rightarrow> bytes \<Rightarrow> bytes option"
  json_dumps :: "pyval \<Rightarrow> string option"
  json_loads :: "string \<Rightarrow> pyval option"
  utf8_ok :: "bytes \<Rightarrow> bool"

text \<open>
  What the calls read and write: the process environment, the configuration table, the
  \<^verbatim>\<open>block_data\<close> table and the position in the stream of clock readings and random bytes.
  A row of \<^verbatim>\<open>block_data\<close> maps a column name to its value; a column without a value is
  \<^verbatim>\<open>NULL\<close>. The timestamp columns, which the storage engine maintains, are not modelled.
\<close>

type_synonym row = "string \<Rightarrow> pyval option"

record world =
  environ :: "string \<Rightarrow> string option"
  configuration :: "(string \<times> pyval) list"
  block_data :: "row list"
  entropy :: nat

text \<open>\<^verbatim>\<open>s.encode()\<close> and \<^verbatim>\<open>b.decode()\<close>, a \<^verbatim>\<open>str\<close> being represented by its UTF-8 bytes.\<close>

definition str_encode :: "string \<Rightarrow> bytes" where
  "str_encode s = s"

definition bytes_decode :: "libs \<Rightarrow> bytes \<Rightarrow> error + string" where
  "bytes_decode L b = (if utf8_ok L b then Inr b else Inl UnicodeDecodeError)"

text \<open>A \<^verbatim>\<open>Fernet\<close> object holds the key it was built from.\<close>

datatype fernet = Fernet bytes

definition Fernet_init :: "libs \<Rightarrow> bytes \<Rightarrow> error + fernet" where
  "Fernet_init L key = (if Fernet_key_ok L key then Inr (Fernet key) else Inl ValueError)"

text \<open>
  \<^verbatim>\<open>v[k].encode()\<close> for a plain value \<^verbatim>\<open>v\<close>: subscripting anything but a dict with a string
  raises \<^verbatim>\<open>TypeError\<close>, a missing key raises \<^verbatim>\<open>KeyError\<close>, and only a \<^verbatim>\<open>str\<close> has
  \<^verbatim>\<open>encode\<close>.
\<close>

definition str_field :: "pyval \<Rightarrow> string \<Rightarrow> error + bytes" where
  "str_field v k =
     (case v of
        PDict m \<Rightarrow>
          (case m k of
             None \<Rightarrow> Inl (KeyError k)
           | Some (PStr s) \<Rightarrow> Inr (str_encode s)
           | Some _ \<Rightarrow> Inl AttributeError)
      | _ \<Rightarrow> Inl TypeError)"

subsection \<open>The configuration store\<close>

text \<open>
  Modelled from the spec: \<^verbatim>\<open>configurations.read_configuration_by_key\<close> is not among the
  sources. Section 6 of the specification gives
  \<^verbatim>\<open>read_by_key(session, key_name) -> {key, value} | None\<close>: the entry stored under the key
  name, \<^verbatim>\<open>None\<close> when there is none.
\<close>

definition read_configuration_by_key :: "world \<Rightarrow> string \<Rightarrow> (string \<times> pyval) option" where
  "read_configuration_by_key w key = find (\<lambda>c. fst c = key) (configuration w)"

text \<open>
  Modelled from the spec: \<^verbatim>\<open>configurations.create_configuration\<close> is not among the sources.
  Section 6 of the specification gives \<^verbatim>\<open>create(session, {key, value})\<close>. Of the two ways
  section 4.1 names to close the race on the first use, the model takes the first: the insert
  is unique-constrained on the key name, so that a writer who comes second fails.
\<close>

definition create_configuration :: "world \<Rightarrow> string \<times> pyval \<Rightarrow> error + world" where
  "create_configuration w c =
     (if fst c \<in> fst ` set (configuration w) then Inl IntegrityError
      else Inr (w\<lparr>configuration := configuration w @ [c]\<rparr>))"

section \<open>Key provider\<close>

text \<open>
  \<^verbatim>\<open>
  async def get_fernet_encryption(session):
      environment_key = os.getenv("ORION_BLOCK_ENCRYPTION_KEY")
      if environment_key:
          return Fernet(environment_key.encode())
      configured_key = await configurations.read_configuration_by_key(
          session, "BLOCK_ENCRYPTION_KEY")
      if configured_key is None:
          encryption_key = Fernet.generate_key()
          configured_key = schemas.core.Configuration(
              key="BLOCK_ENCRYPTION_KEY", value={"fernet_key": encryption_key.decode()})
          await configurations.create_configuration(session, configured_key)
      else:
          encryption_key = configured_key.value["fernet_key"].encode()
      return Fernet(encryption_key)
  \<close>
  \<open>first_use_key\<close> is the branch taken when no key is configured, followed by the final
  \<^verbatim>\<open>return\<close>.
\<close>

definition os_getenv :: "world \<Rightarrow> string \<Rightarrow> string option" where
  "os_getenv w var = environ w var"

definition first_use_key :: "libs \<Rightarrow> world \<Rightarrow> error + (fernet \<times> world)" where
  "first_use_key L w =
     (let encryption_key = Fernet_generate_key L (entropy w);
          w1 = w\<lparr>entropy := Suc (entropy w)\<rparr>
      in case bytes_decode L encryption_key of
           Inl e \<Rightarrow> Inl e
         | Inr text \<Rightarrow>
            (case create_configuration w1
                    (''BLOCK_ENCRYPTION_KEY'', PDict [''fernet_key'' \<mapsto> PStr text]) of
               Inl e \<Rightarrow> Inl e
             | Inr w2 \<Rightarrow>
                (case Fernet_init L encryption_key of
                   Inl e \<Rightarrow> Inl e
                 | Inr f \<Rightarrow> Inr (f, w2))))"

definition configured_key_fernet :: "libs \<Rightarrow> world \<Rightarrow> string \<times> pyval \<Rightarrow> error + (fernet \<times> world)" where
  "configured_key_fernet L w configured_key =
     (case str_field (snd configured_key) ''fernet_key'' of
        Inl e \<Rightarrow> Inl e
      | Inr encryption_key \<Rightarrow>
         (case Fernet_init L encryption_key of
            Inl e \<Rightarrow> Inl e
          | Inr f \<Rightarrow> Inr (f, w)))"

definition get_fernet_encryption :: "libs \<Rightarrow> world \<Rightarrow> error + (fernet \<times> world)" where
  "get_fernet_encryption L w =
     (let environment_key = os_getenv w ''ORION_BLOCK_ENCRYPTION_KEY''
      in if environment_key \<noteq> None \<and> environment_key \<noteq> Some []
         then (case Fernet_init L (str_encode (the environment_key)) of
                 Inl e \<Rightarrow> Inl e
               | Inr f \<Rightarrow> Inr (f, w))
         else (case read_configuration_by_key w ''BLOCK_ENCRYPTION_KEY'' of
                 None \<Rightarrow> first_use_key L w
               | Some configured_key \<Rightarrow> configured_key_fernet L w configured_key))"

text \<open>
  The function suspends at its two \<^verbatim>\<open>await\<close>s. \<open>get_fernet_encryption_interleaved L other\<close>
  is the same code with the writes \<open>other\<close> of concurrent sessions committed between the
  read of the configuration and the insert.
\<close>

definition get_fernet_encryption_interleaved ::
    "libs \<Rightarrow> (world \<Rightarrow> world) \<Rightarrow> world \<Rightarrow> error + (fernet \<times> world)" where
  "get_fernet_encryption_interleaved L other w =
     (let environment_key = os_getenv w ''ORION_BLOCK_ENCRYPTION_KEY''
      in if environment_key \<noteq> None \<and> environment_key \<noteq> Some []
         then (case Fernet_init L (str_encode (the environment_key)) of
                 Inl e \<Rightarrow> Inl e
               | Inr f \<Rightarrow> Inr (f, w))
         else (case read_configuration_by_key w ''BLOCK_ENCRYPTION_KEY'' of
                 None \<Rightarrow> first_use_key L (other w)
               | Some configured_key \<Rightarrow> configured_key_fernet L w configured_key))"

text \<open>A concurrent session that persists the key \<open>k\<close> under the fixed name.\<close>

definition concurrent_writer :: "string \<Rightarrow> world \<Rightarrow> world" where
  "concurrent_writer k w =
     w\<lparr>configuration :=
         configuration w @ [(''BLOCK_ENCRYPTION_KEY'', PDict [''fernet_key'' \<mapsto> PStr k])]\<rparr>"

text \<open>\<open>n\<close> calls of \<^verbatim>\<open>get_fernet_encryption\<close> one after the other, with the objects returned.\<close>

fun resolve_key_times :: "libs \<Rightarrow> nat \<Rightarrow> world \<Rightarrow> error + (fernet list \<times> world)" where
  "resolve_key_times L 0 w = Inr ([], w)"
| "resolve_key_times L (Suc n) w =
     (case get_fernet_encryption L w of
        Inl e \<Rightarrow> Inl e
      | Inr (f, w1) \<Rightarrow>
         (case resolve_key_times L n w1 of
            Inl e \<Rightarrow> Inl e
          | Inr (fs, w2) \<Rightarrow> Inr (f # fs, w2)))"

section \<open>Envelope codec\<close>

text \<open>
  \<^verbatim>\<open>
  async def encrypt_blockdata(session, blockdata: dict):
      fernet = await get_fernet_encryption(session)
      byte_blob = json.dumps(blockdata).encode()
      return {"encrypted_blob": fernet.encrypt(byte_blob).decode()}

  async def decrypt_blockdata(session, blockdata: dict):
      fernet = await get_fernet_encryption(session)
      byte_blob = blockdata["encrypted_blob"].encode()
      return json.loads(fernet.decrypt(byte_blob).decode())
  \<close>
\<close>

definition encrypt_blockdata :: "libs \<Rightarrow> world \<Rightarrow> pyval \<Rightarrow> error + (pyval \<times> world)" where
  "encrypt_blockdata L w blockdata =
     (case get_fernet_encryption L w of
        Inl e \<Rightarrow> Inl e
      | Inr (Fernet key, w1) \<Rightarrow>
         (case json_dumps L blockdata of
            None \<Rightarrow> Inl TypeError
          | Some s \<Rightarrow>
             (let byte_blob = str_encode s;
                  token = Fernet_encrypt L key (entropy w1) byte_blob;
                  w2 = w1\<lparr>entropy := Suc (entropy w1)\<rparr>
              in case bytes_decode L token of
                   Inl e \<Rightarrow> Inl e
                 | Inr t \<Rightarrow> Inr (PDict [''encrypted_blob'' \<mapsto> PStr t], w2))))"

definition decrypt_blockdata :: "libs \<Rightarrow> world \<Rightarrow> pyval \<Rightarrow> error + (pyval \<times> world)" where
  "decrypt_blockdata L w blockdata =
     (case get_fernet_encryption L w of
        Inl e \<Rightarrow> Inl e
      | Inr (Fernet key, w1) \<Rightarrow>
         (case str_field blockdata ''encrypted_blob'' of
            Inl e \<Rightarrow> Inl e
          | Inr byte_blob \<Rightarrow>
             (case Fernet_decrypt L key byte_blob of
                None \<Rightarrow> Inl InvalidToken
              | Some plain \<Rightarrow>
                 (case bytes_decode L plain of
                    Inl e \<Rightarrow> Inl e
                  | Inr s \<Rightarrow>
                     (case json_loads L s of
                        None \<Rightarrow> Inl JSONDecodeError
                      | Some v \<Rightarrow> Inr (v, w1))))))"

text \<open>What the round trip asks of the libraries.\<close>

definition fernet_correct :: "libs \<Rightarrow> bool" where
  "fernet_correct L =
     (\<forall>k n m. Fernet_key_ok L k \<longrightarrow> Fernet_decrypt L k (Fernet_encrypt L k n m) = Some m)"

definition json_roundtrips :: "libs \<Rightarrow> pyval \<Rightarrow> bool" where
  "json_roundtrips L v =
     (\<forall>s. json_dumps L v = Some s \<longrightarrow> utf8_ok L s \<and> json_loads L s = Some v)"

section \<open>Block store\<close>

text \<open>
  Modelled from the spec: the table \<^verbatim>\<open>db.BlockData\<close> and the storage engine that executes the
  statements are not among the sources. Section 6 of the specification describes what the
  module uses: a select returns the rows that satisfy the \<^verbatim>\<open>where\<close> clause, \<^verbatim>\<open>scalar()\<close>
  the first of them or \<^verbatim>\<open>None\<close>; an update sets the given columns in the matching rows and a
  delete removes them, both reporting the number of matching rows as \<^verbatim>\<open>rowcount\<close>. A record
  identifier (a UUID) is represented by its text.
\<close>

definition name_is :: "string \<Rightarrow> row \<Rightarrow> bool" where
  "name_is n r = (r ''name'' = Some (PStr n))"

definition id_is :: "string \<Rightarrow> row \<Rightarrow> bool" where
  "id_is i r = (r ''id'' = Some (PStr i))"

definition scalar :: "row list \<Rightarrow> row option" where
  "scalar rows = (case rows of [] \<Rightarrow> None | r # _ \<Rightarrow> Some r)"

definition column :: "row \<Rightarrow> string \<Rightarrow> pyval" where
  "column r c = (case r c of None \<Rightarrow> PNone | Some v \<Rightarrow> v)"

text \<open>
  Lines 63 to 71 and 87 to 95, the same in both read functions: the dict built from the row,
  its \<^verbatim>\<open>data\<close> replaced by the decrypted payload, then unpacked. The dicts are new objects
  that only this call holds, so the call returns the contents of the flat block.
\<close>

definition row_as_block :: "libs \<Rightarrow> world \<Rightarrow> row \<Rightarrow> error + (dictobj option \<times> world)" where
  "row_as_block L w blockdata =
     (case decrypt_blockdata L w (column blockdata ''data'') of
        Inl e \<Rightarrow> Inl e
      | Inr (data, w1) \<Rightarrow>
         (let blockdata_dict =
                [''name'' \<mapsto> Val (column blockdata ''name''),
                 ''blockref'' \<mapsto> Val (column blockdata ''blockref''),
                 ''blockid'' \<mapsto> Val (column blockdata ''id''),
                 ''data'' \<mapsto> Val data]
          in case unpack_blockdata [blockdata_dict] 0 of
               Inl e \<Rightarrow> Inl e
             | Inr (block, h) \<Rightarrow> Inr (Some (h ! block), w1)))"

text \<open>
  \<^verbatim>\<open>
  query = sa.select(db.BlockData).where(db.BlockData.id == block_data_id).with_for_update()
  result = await session.execute(query)
  blockdata = result.scalar()
  if not blockdata:
      return None
  \<close>
\<close>

definition read_block_data_as_block ::
    "libs \<Rightarrow> world \<Rightarrow> string \<Rightarrow> error + (dictobj option \<times> world)" where
  "read_block_data_as_block L w block_data_id =
     (case scalar (filter (id_is block_data_id) (block_data w)) of
        None \<Rightarrow> Inr (None, w)
      | Some blockdata \<Rightarrow> row_as_block L w blockdata)"

definition read_block_data_by_name_as_block ::
    "libs \<Rightarrow> world \<Rightarrow> string \<Rightarrow> error + (dictobj option \<times> world)" where
  "read_block_data_by_name_as_block L w name =
     (case scalar (filter (name_is name) (block_data w)) of
        None \<Rightarrow> Inr (None, w)
      | Some blockdata \<Rightarrow> row_as_block L w blockdata)"

text \<open>
  \<^verbatim>\<open>
  query = sa.delete(db.BlockData).where(db.BlockData.name == name)
  result = await session.execute(query)
  return result.rowcount > 0
  \<close>
\<close>

definition delete_block_data_by_name :: "world \<Rightarrow> string \<Rightarrow> bool \<times> world" where
  "delete_block_data_by_name w name =
     (let rowcount = length (filter (name_is name) (block_data w))
      in (rowcount > 0,
          w\<lparr>block_data := filter (\<lambda>r. \<not> name_is name r) (block_data w)\<rparr>))"

text \<open>
  \<^verbatim>\<open>
  update_values = block_data.dict(shallow=True, exclude_unset=True)
  update_values = {k: v for k, v in update_values.items() if v is not None}
  if "data" in update_values:
      update_values["data"] = await encrypt_blockdata(session, update_values["data"])
  update_stmt = (
      sa.update(db.BlockData).where(db.BlockData.name == name).values(update_values))
  result = await session.execute(update_stmt)
  return result.rowcount > 0
  \<close>
  The schema \<^verbatim>\<open>BlockDataUpdate\<close> is not among the sources; the argument \<open>set_fields\<close> is the dict
  that \<^verbatim>\<open>block_data.dict(shallow=True, exclude_unset=True)\<close> returns, the fields that were set.
\<close>

definition not_none :: "row \<Rightarrow> row" where
  "not_none set_fields = (\<lambda>k. case set_fields k of Some PNone \<Rightarrow> None | v \<Rightarrow> v)"

text \<open>
  Modelled from the spec: the constraints of the table are not among the sources. Section 3 of
  the specification has \<^verbatim>\<open>id\<close> a unique identifier and \<^verbatim>\<open>name\<close> unique across all records;
  section 7 has the failures of the storage engine propagate. A statement that would leave two
  rows with the same \<^verbatim>\<open>name\<close> or the same \<^verbatim>\<open>id\<close> fails with \<^verbatim>\<open>IntegrityError\<close> and changes
  nothing.
\<close>

definition unique_column :: "string \<Rightarrow> row list \<Rightarrow> bool" where
  "unique_column c rows = distinct (List.map_filter (\<lambda>r. r c) rows)"

definition constraints_hold :: "row list \<Rightarrow> bool" where
  "constraints_hold rows = (unique_column ''name'' rows \<and> unique_column ''id'' rows)"

definition execute_update :: "world \<Rightarrow> string \<Rightarrow> row \<Rightarrow> error + (bool \<times> world)" where
  "execute_update w name update_values =
     (let rowcount = length (filter (name_is name) (block_data w));
          rows = map (\<lambda>r. if name_is name r then r ++ update_values else r) (block_data w)
      in if constraints_hold rows then Inr (rowcount > 0, w\<lparr>block_data := rows\<rparr>)
         else Inl IntegrityError)"

definition update_block_data :: "libs \<Rightarrow> world \<Rightarrow> string \<Rightarrow> row \<Rightarrow> error + (bool \<times> world)" where
  "update_block_data L w name set_fields =
     (let update_values = not_none set_fields
      in case update_values ''data'' of
           None \<Rightarrow> execute_update w name update_values
         | Some d \<Rightarrow>
            (case encrypt_blockdata L w d of
               Inl e \<Rightarrow> Inl e
             | Inr (envelope, w1) \<Rightarrow>
                 execute_update w1 name (update_values(''data'' \<mapsto> envelope))))"

section \<open>Notions used in the statements\<close>

text \<open>The override variable is unset or empty, so that \<^verbatim>\<open>if environment_key:\<close> is false.\<close>

definition no_override :: "world \<Rightarrow> bool" where
  "no_override w =
     (environ w ''ORION_BLOCK_ENCRYPTION_KEY'' = None \<or> environ w ''ORION_BLOCK_ENCRYPTION_KEY'' = Some [])"

text \<open>The blob \<open>t'\<close> is the blob \<open>t\<close> with one byte changed.\<close>

definition one_byte_change :: "string \<Rightarrow> string \<Rightarrow> bool" where
  "one_byte_change t t' =
     (length t = length t' \<and> length (filter (\<lambda>(a, b). a \<noteq> b) (zip t t')) = 1)"

text \<open>The configuration entry that holds the key \<open>k\<close>.\<close>

definition key_entry :: "string \<Rightarrow> string \<times> pyval" where
  "key_entry k = (''BLOCK_ENCRYPTION_KEY'', PDict [''fernet_key'' \<mapsto> PStr k])"

section \<open>Examples\<close>

text \<open>The flat block of the specification's create scenario, and a stored record whose payload
  carries a field named like a reserved one.\<close>

definition example_flat_block :: dictobj where
  "example_flat_block =
     [''blockname'' \<mapsto> Val (PStr ''k1''), ''blockref'' \<mapsto> Val (PStr ''secret-block''),
      ''token'' \<mapsto> Val (PStr ''abc'')]"

definition example_record :: dictobj where
  "example_record =
     [''name'' \<mapsto> Val (PStr ''k1''), ''blockref'' \<mapsto> Val (PStr ''secret-block''),
      ''blockid'' \<mapsto> Val (PStr ''X''),
      ''data'' \<mapsto> Val (PDict [''token'' \<mapsto> PStr ''abc'', ''blockname'' \<mapsto> PStr ''other''])]"

text \<open>
  A small instance of the libraries, for evaluating the definitions: keys are four bytes long,
  a token is the key followed by the plaintext, and the JSON codec knows the dicts with the
  single field \<^verbatim>\<open>token\<close>, its value a string or a pair of strings. As \<^verbatim>\<open>json\<close> does, the
  codec writes a tuple as it writes a list, and reads a list.
\<close>

definition demo_libs :: libs where
  "demo_libs =
     \<lparr>Fernet_key_ok = (\<lambda>k. length k = 4),
      Fernet_generate_key = (\<lambda>n. if n = 0 then ''KEY0'' else ''KEY1''),
      Fernet_encrypt = (\<lambda>k n m. k @ m),
      Fernet_decrypt = (\<lambda>k t. if take (length k) t = k then Some (drop (length k) t) else None),
      json_dumps =
        (\<lambda>v. case v of
               PDict m \<Rightarrow>
                 (case m ''token'' of
                    Some (PStr s) \<Rightarrow> Some (''{token: '' @ s @ ''}'')
                  | Some (PList [PStr a, PStr b]) \<Rightarrow> Some (''{token: ['' @ a @ '', '' @ b @ '']}'')
                  | Some (PTuple [PStr a, PStr b]) \<Rightarrow> Some (''{token: ['' @ a @ '', '' @ b @ '']}'')
                  | _ \<Rightarrow> None)
             | _ \<Rightarrow> None),
      json_loads =
        (\<lambda>s. if s = ''{token: [a, b]}''
              then Some (PDict [''token'' \<mapsto> PList [PStr ''a'', PStr ''b''] ])
              else if take 8 s = ''{token: '' \<and> drop (length s - 1) s = ''}''
              then Some (PDict [''token'' \<mapsto> PStr (take (length s - 9) (drop 8 s))])
              else None),
      utf8_ok = list_all (\<lambda>c. \<not> digit7 c)\<rparr>"

text \<open>
  Fernet's tokens are base64 text (URL-safe alphabet, \<^verbatim>\<open>=\<close> padding), and \<^verbatim>\<open>decrypt\<close> decodes
  the token with \<^verbatim>\<open>base64.urlsafe_b64decode\<close> before it checks anything. The decoder is
  \<^verbatim>\<open>binascii.a2b_base64\<close> in its default, non-strict mode: it keeps the position in the group of
  four digits, the bits left over and the padding seen, skips what is not a digit, stops at
  the padding that completes a group, and drops the bits left over there.
\<close>

definition b64_alphabet :: string where
  "b64_alphabet = ''ABCDEFGHIJKLMNOPQRSTUVWXYZabcdefghijklmnopqrstuvwxyz0123456789-_''"

definition b64_digit :: "nat \<Rightarrow> char" where
  "b64_digit n = b64_alphabet ! n"

fun position :: "char \<Rightarrow> string \<Rightarrow> nat option" where
  "position c [] = None"
| "position c (x # xs) = (if c = x then Some 0 else map_option Suc (position c xs))"

definition b64_value :: "char \<Rightarrow> nat option" where
  "b64_value c =
     (if c = CHR ''+'' then Some 62 else if c = CHR ''/'' then Some 63
      else position c b64_alphabet)"

fun urlsafe_b64encode :: "bytes \<Rightarrow> string" where
  "urlsafe_b64encode [] = []"
| "urlsafe_b64encode [a] =
     (let x = of_char a
      in [b64_digit (x div 4), b64_digit ((x mod 4) * 16), CHR ''='', CHR ''=''])"
| "urlsafe_b64encode [a, b] =
     (let x = of_char a; y = of_char b
      in [b64_digit (x div 4), b64_digit ((x mod 4) * 16 + y div 16),
          b64_digit ((y mod 16) * 4), CHR ''=''])"
| "urlsafe_b64encode (a # b # c # rest) =
     (let x = of_char a; y = of_char b; z = of_char c
      in b64_digit (x div 4) # b64_digit ((x mod 4) * 16 + y div 16)
         # b64_digit ((y mod 16) * 4 + z div 64) # b64_digit (z mod 64)
         # urlsafe_b64encode rest)"

fun a2b_base64 :: "nat \<Rightarrow> nat \<Rightarrow> nat \<Rightarrow> string \<Rightarrow> bytes option" where
  "a2b_base64 quad_pos leftchar pads [] = (if quad_pos = 0 then Some [] else None)"
| "a2b_base64 quad_pos leftchar pads (c # cs) =
     (if c = CHR ''='' then
        (if quad_pos \<ge> 2 then
           (if quad_pos + Suc pads \<ge> 4 then Some []
            else a2b_base64 quad_pos leftchar (Suc pads) cs)
         else a2b_base64 quad_pos leftchar pads cs)
      else
        (case b64_value c of
           None \<Rightarrow> a2b_base64 quad_pos leftchar pads cs
         | Some v \<Rightarrow>
            (if quad_pos = 0 then a2b_base64 1 v 0 cs
             else if quad_pos = 1 then
               map_option ((#) (char_of (leftchar * 4 + v div 16))) (a2b_base64 2 (v mod 16) 0 cs)
             else if quad_pos = 2 then
               map_option ((#) (char_of (leftchar * 16 + v div 4))) (a2b_base64 3 (v mod 4) 0 cs)
             else
               map_option ((#) (char_of (leftchar * 64 + v))) (a2b_base64 0 0 0 cs))))"

definition urlsafe_b64decode :: "string \<Rightarrow> bytes option" where
  "urlsafe_b64decode t = a2b_base64 0 0 0 t"

text \<open>
  The small instance again, its tokens now base64 text as Fernet's are: a token is the base64
  encoding of the key followed by the plaintext, and decryption decodes the token and rejects
  what was not sealed under the key.
\<close>

definition base64_libs :: libs where
  "base64_libs =
     demo_libs
       \<lparr>Fernet_encrypt := (\<lambda>k n m. urlsafe_b64encode (k @ m)),
        Fernet_decrypt :=
          (\<lambda>k t. case urlsafe_b64decode t of
                   None \<Rightarrow> None
                 | Some raw \<Rightarrow>
                     if take (length k) raw = k then Some (drop (length k) raw) else None)\<rparr>"

text \<open>A fresh deployment; the same with the override variable set; a payload.\<close>

definition empty_world :: world where
  "empty_world = \<lparr>environ = Map.empty, configuration = [], block_data = [], entropy = 0\<rparr>"

definition override_world :: world where
  "override_world = empty_world\<lparr>environ := [''ORION_BLOCK_ENCRYPTION_KEY'' \<mapsto> ''ENVK'']\<rparr>"

definition example_payload :: pyval where
  "example_payload = PDict [''token'' \<mapsto> PStr ''abc'']"

text \<open>A payload that holds a tuple, and the payload with a list in its place.\<close>

definition tuple_payload :: pyval where
  "tuple_payload = PDict [''token'' \<mapsto> PTuple [PStr ''a'', PStr ''b''] ]"

definition list_payload :: pyval where
  "list_payload = PDict [''token'' \<mapsto> PList [PStr ''a'', PStr ''b''] ]"

text \<open>The store after the specification's create scenario, and a partial update of it.\<close>

definition stored_row :: row where
  "stored_row =
     [''id'' \<mapsto> PStr ''X'', ''name'' \<mapsto> PStr ''k1'', ''blockref'' \<mapsto> PStr ''secret-block'',
      ''data'' \<mapsto> PDict [''encrypted_blob'' \<mapsto> PStr ''KEY0{token: abc}''] ]"

definition stored_world :: world where
  "stored_world =
     \<lparr>environ = Map.empty, configuration = [key_entry ''KEY0''], block_data = [stored_row],
      entropy = 2\<rparr>"

definition example_update :: row where
  "example_update = [''data'' \<mapsto> PDict [''token'' \<mapsto> PStr ''xyz''], ''blockref'' \<mapsto> PNone]"

text \<open>A store with two records, and an update that renames one to the name of the other.\<close>

definition second_row :: row where
  "second_row =
     [''id'' \<mapsto> PStr ''Y'', ''name'' \<mapsto> PStr ''k2'', ''blockref'' \<mapsto> PStr ''secret-block'',
      ''data'' \<mapsto> PDict [''encrypted_blob'' \<mapsto> PStr ''KEY0{token: abc}''] ]"

definition two_rows_world :: world where
  "two_rows_world = stored_world\<lparr>block_data := [stored_row, second_row]\<rparr>"

definition rename_update :: row where
  "rename_update = [''name'' \<mapsto> PStr ''k2'']"

section \<open>Packing and unpacking\<close>

lemma dict_pop_default_eq:
  "d < length h \<Longrightarrow>
   dict_pop_default h d k dflt =
     ((case (h ! d) k of None \<Rightarrow> dflt | Some v \<Rightarrow> v), h[d := (h ! d)(k := None)])"
  by (cases "(h ! d) k") (simp_all add: dict_pop_default_def fun_upd_idem list_update_same_conv)

lemma dict_pop_eq:
  "(h ! d) k = Some v \<Longrightarrow> dict_pop h d k = Inr (v, h[d := (h ! d)(k := None)])"
  by (simp add: dict_pop_def)

lemma pack_blockdata_result:
  assumes "raw_block < length h"
    and "(h ! raw_block) ''blockname'' = Some n"
    and "(h ! raw_block) ''blockref'' = Some r"
  shows "pack_blockdata h raw_block =
     Inr (length h,
          h[raw_block := (h ! raw_block)(''blockname'' := None, ''blockref'' := None, ''blockid'' := None)]
            @ [ [''name'' \<mapsto> n, ''blockref'' \<mapsto> r, ''data'' \<mapsto> Ref raw_block] ])"
  using assms
  by (simp add: pack_blockdata_def dict_new_def dict_pop_eq dict_setitem_def dict_pop_default_eq
      nth_append list_update_append)

lemma unpack_blockdata_result:
  assumes "blockdata < length h"
    and "(h ! blockdata) ''data'' = Some d"
    and "as_mapping h d = Some m"
  shows "unpack_blockdata h blockdata =
     Inr (length h,
          h[blockdata := (h ! blockdata)(''name'' := None, ''blockref'' := None, ''blockid'' := None)]
            @ [m(''blockname'' \<mapsto> field_or_none (h ! blockdata) ''name'',
                 ''blockref'' \<mapsto> field_or_none (h ! blockdata) ''blockref'',
                 ''blockid'' \<mapsto> field_or_none (h ! blockdata) ''blockid'')])"
  using assms
  by (simp add: unpack_blockdata_def dict_getitem_def dict_copy_def dict_setitem_def dict_pop_default_eq
      nth_append list_update_append field_or_none_def)

text \<open>
  Claim C10. \<^verbatim>\<open>pack_blockdata\<close> mutates its argument: when it returns, the caller's dict has
  lost \<^verbatim>\<open>blockname\<close>, \<^verbatim>\<open>blockref\<close> and \<^verbatim>\<open>blockid\<close> and is otherwise as it was, and the
  \<^verbatim>\<open>data\<close> field of the returned record refers to that very object: the only object the call
  creates is the record itself.
\<close>

theorem pack_blockdata_mutates_argument:
  assumes "raw_block < length h"
    and "(h ! raw_block) ''blockname'' = Some n"
    and "(h ! raw_block) ''blockref'' = Some r"
  shows "\<exists>h'. pack_blockdata h raw_block = Inr (length h, h')
           \<and> length h' = Suc (length h)
           \<and> h' ! raw_block =
               (h ! raw_block)(''blockname'' := None, ''blockref'' := None, ''blockid'' := None)
           \<and> (h' ! raw_block) ''blockname'' = None
           \<and> (h' ! raw_block) ''blockref'' = None
           \<and> (h' ! raw_block) ''blockid'' = None
           \<and> (h' ! length h) ''data'' = Some (Ref raw_block)"
  using assms by (simp add: pack_blockdata_result nth_append)

theorem pack_blockdata_mutates_argument_witness:
  "(0::nat) < length [example_flat_block]
   \<and> ([example_flat_block] ! 0) ''blockname'' = Some (Val (PStr ''k1''))
   \<and> ([example_flat_block] ! 0) ''blockref'' = Some (Val (PStr ''secret-block''))
   \<and> (\<exists>h'. pack_blockdata [example_flat_block] 0 = Inr (1, h')
           \<and> h' ! 0 = [''token'' \<mapsto> Val (PStr ''abc'')]
           \<and> (h' ! 1) ''data'' = Some (Ref 0))"
proof -
  have "\<exists>h'. pack_blockdata [example_flat_block] 0 = Inr (length [example_flat_block], h')
           \<and> length h' = Suc (length [example_flat_block])
           \<and> h' ! 0 =
               ([example_flat_block] ! 0)(''blockname'' := None, ''blockref'' := None, ''blockid'' := None)
           \<and> (h' ! 0) ''blockname'' = None
           \<and> (h' ! 0) ''blockref'' = None
           \<and> (h' ! 0) ''blockid'' = None
           \<and> (h' ! length [example_flat_block]) ''data'' = Some (Ref 0)"
    by (rule pack_blockdata_mutates_argument) (simp_all add: example_flat_block_def)
  then obtain h' where "pack_blockdata [example_flat_block] 0 = Inr (1, h')"
    and "h' ! 0 = example_flat_block(''blockname'' := None, ''blockref'' := None, ''blockid'' := None)"
    and "(h' ! 1) ''data'' = Some (Ref 0)"
    by auto
  moreover have "example_flat_block(''blockname'' := None, ''blockref'' := None, ''blockid'' := None)
      = [''token'' \<mapsto> Val (PStr ''abc'')]"
    by (rule ext) (simp add: example_flat_block_def)
  ultimately show ?thesis by (simp add: example_flat_block_def)
qed

text \<open>
  Claim C3. For a flat block \<open>F\<close> with \<^verbatim>\<open>blockname\<close> and \<^verbatim>\<open>blockref\<close>, any other fields and
  no \<^verbatim>\<open>blockid\<close>: packing \<open>F\<close>, setting a generated id \<open>X\<close> in the packed record and
  unpacking it gives \<open>F\<close> with \<^verbatim>\<open>blockid\<close> set to \<open>X\<close>.
\<close>

theorem pack_unpack_inverse:
  assumes "raw_block < length h"
    and "(h ! raw_block) ''blockname'' = Some n"
    and "(h ! raw_block) ''blockref'' = Some r"
    and "(h ! raw_block) ''blockid'' = None"
  shows "\<exists>blockdata h1 block h2.
           pack_blockdata h raw_block = Inr (blockdata, h1)
           \<and> unpack_blockdata (dict_setitem h1 blockdata ''blockid'' X) blockdata = Inr (block, h2)
           \<and> h2 ! block = (h ! raw_block)(''blockid'' \<mapsto> X)"
proof -
  let ?F = "h ! raw_block"
  let ?data = "?F(''blockname'' := None, ''blockref'' := None, ''blockid'' := None)"
  let ?h1 = "h[raw_block := ?data] @ [ [''name'' \<mapsto> n, ''blockref'' \<mapsto> r, ''data'' \<mapsto> Ref raw_block] ]"
  let ?h1' = "dict_setitem ?h1 (length h) ''blockid'' X"
  have pack: "pack_blockdata h raw_block = Inr (length h, ?h1)"
    using assms by (simp add: pack_blockdata_result)
  have len: "length ?h1' = Suc (length h)"
    by (simp add: dict_setitem_def)
  have rec: "?h1' ! length h = [''name'' \<mapsto> n, ''blockref'' \<mapsto> r, ''data'' \<mapsto> Ref raw_block, ''blockid'' \<mapsto> X]"
    by (simp add: dict_setitem_def nth_append list_update_append)
  have data: "as_mapping ?h1' (Ref raw_block) = Some ?data"
    using assms(1) by (simp add: as_mapping_def dict_setitem_def nth_append list_update_append)
  have "unpack_blockdata ?h1' (length h) =
     Inr (length ?h1',
          ?h1'[length h := (?h1' ! length h)(''name'' := None, ''blockref'' := None, ''blockid'' := None)]
            @ [?data(''blockname'' \<mapsto> field_or_none (?h1' ! length h) ''name'',
                 ''blockref'' \<mapsto> field_or_none (?h1' ! length h) ''blockref'',
                 ''blockid'' \<mapsto> field_or_none (?h1' ! length h) ''blockid'')])"
    by (rule unpack_blockdata_result[OF _ _ data]) (simp_all add: len rec)
  moreover have "?data(''blockname'' \<mapsto> field_or_none (?h1' ! length h) ''name'',
                 ''blockref'' \<mapsto> field_or_none (?h1' ! length h) ''blockref'',
                 ''blockid'' \<mapsto> field_or_none (?h1' ! length h) ''blockid'') = ?F(''blockid'' \<mapsto> X)"
    using assms(2,3) by (auto simp: rec field_or_none_def fun_eq_iff)
  ultimately show ?thesis
    using pack by (simp add: nth_append len del: fun_upd_apply)
qed

theorem pack_unpack_inverse_witness:
  "(0::nat) < length [example_flat_block]
   \<and> ([example_flat_block] ! 0) ''blockname'' = Some (Val (PStr ''k1''))
   \<and> ([example_flat_block] ! 0) ''blockref'' = Some (Val (PStr ''secret-block''))
   \<and> ([example_flat_block] ! 0) ''blockid'' = None
   \<and> (\<exists>blockdata h1 block h2.
           pack_blockdata [example_flat_block] 0 = Inr (blockdata, h1)
           \<and> unpack_blockdata (dict_setitem h1 blockdata ''blockid'' (Val (PStr ''X''))) blockdata
               = Inr (block, h2)
           \<and> h2 ! block = example_flat_block(''blockid'' \<mapsto> Val (PStr ''X'')))"
  using pack_unpack_inverse[of 0 "[example_flat_block]" "Val (PStr ''k1'')"
      "Val (PStr ''secret-block'')" "Val (PStr ''X'')"]
  by (simp add: example_flat_block_def)

text \<open>
  Claim C8. Unpacking a record gives the fields of its \<^verbatim>\<open>data\<close> with \<^verbatim>\<open>blockname\<close>,
  \<^verbatim>\<open>blockref\<close> and \<^verbatim>\<open>blockid\<close> set from the record's own \<^verbatim>\<open>name\<close>, \<^verbatim>\<open>blockref\<close> and
  \<^verbatim>\<open>blockid\<close>; a field of \<^verbatim>\<open>data\<close> with one of the three reserved names is overwritten.
\<close>

theorem unpack_blockdata_reserved_fields_win:
  assumes "blockdata < length h"
    and "(h ! blockdata) ''data'' = Some d"
    and "as_mapping h d = Some m"
  shows "\<exists>block h'.
           unpack_blockdata h blockdata = Inr (block, h')
           \<and> h' ! block =
               m(''blockname'' \<mapsto> field_or_none (h ! blockdata) ''name'',
                 ''blockref'' \<mapsto> field_or_none (h ! blockdata) ''blockref'',
                 ''blockid'' \<mapsto> field_or_none (h ! blockdata) ''blockid'')
           \<and> (h' ! block) ''blockname'' = Some (field_or_none (h ! blockdata) ''name'')
           \<and> (h' ! block) ''blockref'' = Some (field_or_none (h ! blockdata) ''blockref'')
           \<and> (h' ! block) ''blockid'' = Some (field_or_none (h ! blockdata) ''blockid'')
           \<and> (\<forall>k. k \<noteq> ''blockname'' \<and> k \<noteq> ''blockref'' \<and> k \<noteq> ''blockid''
                  \<longrightarrow> (h' ! block) k = m k)"
  using assms by (simp add: unpack_blockdata_result nth_append)

theorem unpack_blockdata_reserved_fields_win_witness:
  "(0::nat) < length [example_record]
   \<and> ([example_record] ! 0) ''data''
       = Some (Val (PDict [''token'' \<mapsto> PStr ''abc'', ''blockname'' \<mapsto> PStr ''other'']))
   \<and> as_mapping [example_record]
         (Val (PDict [''token'' \<mapsto> PStr ''abc'', ''blockname'' \<mapsto> PStr ''other'']))
       = Some (map_option Val \<circ> [''token'' \<mapsto> PStr ''abc'', ''blockname'' \<mapsto> PStr ''other''])
   \<and> (\<exists>block h'.
           unpack_blockdata [example_record] 0 = Inr (block, h')
           \<and> (h' ! block) ''blockname'' = Some (Val (PStr ''k1''))
           \<and> (h' ! block) ''blockref'' = Some (Val (PStr ''secret-block''))
           \<and> (h' ! block) ''blockid'' = Some (Val (PStr ''X''))
           \<and> (h' ! block) ''token'' = Some (Val (PStr ''abc'')))"
proof -
  let ?d = "Val (PDict [''token'' \<mapsto> PStr ''abc'', ''blockname'' \<mapsto> PStr ''other''])"
  let ?m = "map_option Val \<circ> [''token'' \<mapsto> PStr ''abc'', ''blockname'' \<mapsto> PStr ''other'']"
  have 1: "(0::nat) < length [example_record]" by simp
  have 2: "([example_record] ! 0) ''data'' = Some ?d" by (simp add: example_record_def)
  have 3: "as_mapping [example_record] ?d = Some ?m" by (simp add: as_mapping_def)
  from unpack_blockdata_reserved_fields_win[OF 1 2 3]
  obtain block h' where u: "unpack_blockdata [example_record] 0 = Inr (block, h')"
    and n: "(h' ! block) ''blockname'' = Some (field_or_none ([example_record] ! 0) ''name'')"
    and r: "(h' ! block) ''blockref'' = Some (field_or_none ([example_record] ! 0) ''blockref'')"
    and i: "(h' ! block) ''blockid'' = Some (field_or_none ([example_record] ! 0) ''blockid'')"
    and rest: "\<forall>k. k \<noteq> ''blockname'' \<and> k \<noteq> ''blockref'' \<and> k \<noteq> ''blockid''
                  \<longrightarrow> (h' ! block) k = ?m k"
    by blast
  from rest have t: "(h' ! block) ''token'' = Some (Val (PStr ''abc''))" by simp
  from n r i have "(h' ! block) ''blockname'' = Some (Val (PStr ''k1''))"
    and "(h' ! block) ''blockref'' = Some (Val (PStr ''secret-block''))"
    and "(h' ! block) ''blockid'' = Some (Val (PStr ''X''))"
    by (simp_all add: field_or_none_def example_record_def)
  with 1 2 3 u t show ?thesis by blast
qed

section \<open>Key resolution\<close>

text \<open>
  Claim C6. When the override variable is set and not empty, key resolution builds the key
  from its value and returns at once (a \<^verbatim>\<open>ValueError\<close> when Fernet does not accept the value):
  whatever the configuration table holds, the result is the same and the table is returned
  as it was, so the call neither reads nor writes it.
\<close>

theorem environment_override_bypasses_configuration:
  assumes "environ w ''ORION_BLOCK_ENCRYPTION_KEY'' = Some k" and "k \<noteq> []"
  shows "get_fernet_encryption L (w\<lparr>configuration := c\<rparr>) =
           (if Fernet_key_ok L k then Inr (Fernet k, w\<lparr>configuration := c\<rparr>) else Inl ValueError)"
  using assms
  by (simp add: get_fernet_encryption_def os_getenv_def Fernet_init_def str_encode_def)

theorem environment_override_bypasses_configuration_witness:
  "environ override_world ''ORION_BLOCK_ENCRYPTION_KEY'' = Some ''ENVK'' \<and> ''ENVK'' \<noteq> []
   \<and> get_fernet_encryption demo_libs (override_world\<lparr>configuration := [key_entry ''KEY1'']\<rparr>)
       = Inr (Fernet ''ENVK'', override_world\<lparr>configuration := [key_entry ''KEY1'']\<rparr>)"
  using environment_override_bypasses_configuration[of override_world "''ENVK''" demo_libs
      "[key_entry ''KEY1'']"]
  by (simp add: override_world_def empty_world_def demo_libs_def)

lemma first_use_key_fresh:
  assumes "read_configuration_by_key w ''BLOCK_ENCRYPTION_KEY'' = None"
    and "utf8_ok L (Fernet_generate_key L (entropy w))"
    and "Fernet_key_ok L (Fernet_generate_key L (entropy w))"
  shows "first_use_key L w =
     Inr (Fernet (Fernet_generate_key L (entropy w)),
          w\<lparr>entropy := Suc (entropy w),
            configuration := configuration w @ [key_entry (Fernet_generate_key L (entropy w))]\<rparr>)"
proof -
  from assms(1) have "''BLOCK_ENCRYPTION_KEY'' \<notin> fst ` set (configuration w)"
    by (auto simp: read_configuration_by_key_def find_None_iff)
  with assms(2,3) show ?thesis
    by (simp add: first_use_key_def bytes_decode_def create_configuration_def Fernet_init_def
        key_entry_def Let_def)
qed

lemma find_append_last:
  "find P xs = None \<Longrightarrow> P x \<Longrightarrow> find P (xs @ [x]) = Some x"
  by (induction xs) (auto split: if_splits)

lemma find_Some_D:
  "find P xs = Some x \<Longrightarrow> x \<in> set xs \<and> P x"
  by (induction xs) (auto split: if_splits)

lemma read_configuration_by_key_append:
  "read_configuration_by_key w key = None \<Longrightarrow>
   read_configuration_by_key (w\<lparr>configuration := configuration w @ [(key, v)]\<rparr>) key = Some (key, v)"
  by (simp add: read_configuration_by_key_def find_append_last)

lemma get_fernet_encryption_first_use:
  assumes "no_override w"
    and "read_configuration_by_key w ''BLOCK_ENCRYPTION_KEY'' = None"
    and "utf8_ok L (Fernet_generate_key L (entropy w))"
    and "Fernet_key_ok L (Fernet_generate_key L (entropy w))"
  shows "get_fernet_encryption L w =
     Inr (Fernet (Fernet_generate_key L (entropy w)),
          w\<lparr>entropy := Suc (entropy w),
            configuration := configuration w @ [key_entry (Fernet_generate_key L (entropy w))]\<rparr>)"
  using assms(1,2) first_use_key_fresh[OF assms(2,3,4)]
  by (auto simp: get_fernet_encryption_def os_getenv_def no_override_def)

lemma get_fernet_encryption_configured:
  assumes "no_override w"
    and "read_configuration_by_key w ''BLOCK_ENCRYPTION_KEY'' = Some (key_entry k)"
    and "Fernet_key_ok L k"
  shows "get_fernet_encryption L w = Inr (Fernet k, w)"
  using assms
  by (auto simp: get_fernet_encryption_def os_getenv_def no_override_def configured_key_fernet_def
      key_entry_def str_field_def str_encode_def Fernet_init_def)

lemma resolve_key_times_configured:
  assumes "no_override w"
    and "read_configuration_by_key w ''BLOCK_ENCRYPTION_KEY'' = Some (key_entry k)"
    and "Fernet_key_ok L k"
  shows "resolve_key_times L n w = Inr (replicate n (Fernet k), w)"
  by (induction n) (simp_all add: get_fernet_encryption_configured[OF assms])

text \<open>
  Claim C5. With no override and an empty configuration table, \<open>n\<close> calls of key resolution
  one after the other (\<open>n\<close> at least one, the generated key being one Fernet accepts) all
  return the same key, and leave exactly one configuration entry under the fixed name.
\<close>

theorem key_resolution_idempotent:
  assumes "no_override w"
    and "configuration w = []"
    and "utf8_ok L (Fernet_generate_key L (entropy w))"
    and "Fernet_key_ok L (Fernet_generate_key L (entropy w))"
    and "0 < n"
  shows "\<exists>w'. resolve_key_times L n w = Inr (replicate n (Fernet (Fernet_generate_key L (entropy w))), w')
           \<and> configuration w' = [key_entry (Fernet_generate_key L (entropy w))]
           \<and> length (filter (\<lambda>c. fst c = ''BLOCK_ENCRYPTION_KEY'') (configuration w')) = 1"
proof -
  let ?g = "Fernet_generate_key L (entropy w)"
  let ?w1 = "w\<lparr>entropy := Suc (entropy w), configuration := configuration w @ [key_entry ?g]\<rparr>"
  from assms(5) obtain m where n: "n = Suc m" by (cases n) auto
  have none: "read_configuration_by_key w ''BLOCK_ENCRYPTION_KEY'' = None"
    using assms(2) by (simp add: read_configuration_by_key_def)
  have first: "get_fernet_encryption L w = Inr (Fernet ?g, ?w1)"
    by (rule get_fernet_encryption_first_use[OF assms(1) none assms(3,4)])
  have no: "no_override ?w1"
    using assms(1) by (simp add: no_override_def)
  have some: "read_configuration_by_key ?w1 ''BLOCK_ENCRYPTION_KEY'' = Some (key_entry ?g)"
    using assms(2) by (simp add: read_configuration_by_key_def key_entry_def)
  have rest: "resolve_key_times L m ?w1 = Inr (replicate m (Fernet ?g), ?w1)"
    by (rule resolve_key_times_configured[OF no some assms(4)])
  show ?thesis
    using first rest assms(2) by (simp add: n key_entry_def)
qed

theorem key_resolution_idempotent_witness:
  "no_override empty_world \<and> configuration empty_world = []
   \<and> utf8_ok demo_libs (Fernet_generate_key demo_libs (entropy empty_world))
   \<and> Fernet_key_ok demo_libs (Fernet_generate_key demo_libs (entropy empty_world))
   \<and> (0::nat) < 3
   \<and> (\<exists>w'. resolve_key_times demo_libs 3 empty_world
               = Inr ([Fernet ''KEY0'', Fernet ''KEY0'', Fernet ''KEY0''], w')
           \<and> configuration w' = [key_entry ''KEY0''])"
proof -
  have 1: "no_override empty_world" by (simp add: no_override_def empty_world_def)
  have 2: "configuration empty_world = []" by (simp add: empty_world_def)
  have g: "Fernet_generate_key demo_libs (entropy empty_world) = ''KEY0''"
    by (simp add: demo_libs_def empty_world_def)
  have 3: "utf8_ok demo_libs (Fernet_generate_key demo_libs (entropy empty_world))"
    unfolding g by (simp add: demo_libs_def)
  have 4: "Fernet_key_ok demo_libs (Fernet_generate_key demo_libs (entropy empty_world))"
    unfolding g by (simp add: demo_libs_def)
  have 5: "(0::nat) < 3" by simp
  from key_resolution_idempotent[OF 1 2 3 4 5] 1 2 3 4 show ?thesis
    unfolding g by (auto simp: numeral_3_eq_3)
qed

text \<open>
  Claim C2, as the code has it. When key resolution finds no configured key and a concurrent
  writer persists one before the insert, the insert fails and the failure reaches the caller:
  there is no retry and no second read, and no key is returned.
\<close>

theorem key_race_propagates_failure:
  assumes "no_override w"
    and "read_configuration_by_key w ''BLOCK_ENCRYPTION_KEY'' = None"
    and "read_configuration_by_key (other w) ''BLOCK_ENCRYPTION_KEY'' = Some c"
  shows "get_fernet_encryption_interleaved L other w =
           Inl (if utf8_ok L (Fernet_generate_key L (entropy (other w)))
                then IntegrityError else UnicodeDecodeError)"
proof -
  from assms(3) have "''BLOCK_ENCRYPTION_KEY'' \<in> fst ` set (configuration (other w))"
    by (auto simp: read_configuration_by_key_def dest!: find_Some_D intro!: rev_image_eqI)
  then have "first_use_key L (other w) =
           Inl (if utf8_ok L (Fernet_generate_key L (entropy (other w)))
                then IntegrityError else UnicodeDecodeError)"
    by (simp add: first_use_key_def bytes_decode_def create_configuration_def Let_def)
  with assms(1,2) show ?thesis
    by (auto simp: get_fernet_encryption_interleaved_def os_getenv_def no_override_def)
qed

theorem key_race_propagates_failure_witness:
  "no_override empty_world
   \<and> read_configuration_by_key empty_world ''BLOCK_ENCRYPTION_KEY'' = None
   \<and> read_configuration_by_key (concurrent_writer ''KEY1'' empty_world) ''BLOCK_ENCRYPTION_KEY''
       = Some (key_entry ''KEY1'')
   \<and> get_fernet_encryption_interleaved demo_libs (concurrent_writer ''KEY1'') empty_world
       = Inl IntegrityError"
proof -
  have 1: "no_override empty_world" by (simp add: no_override_def empty_world_def)
  have 2: "read_configuration_by_key empty_world ''BLOCK_ENCRYPTION_KEY'' = None"
    by (simp add: read_configuration_by_key_def empty_world_def)
  have 3: "read_configuration_by_key (concurrent_writer ''KEY1'' empty_world) ''BLOCK_ENCRYPTION_KEY''
       = Some (key_entry ''KEY1'')"
    by (simp add: read_configuration_by_key_def concurrent_writer_def empty_world_def key_entry_def)
  from key_race_propagates_failure[where w = empty_world and other = "concurrent_writer ''KEY1''"
      and L = demo_libs, OF 1 2 3] 1 2 3 show ?thesis
    by (simp add: demo_libs_def concurrent_writer_def empty_world_def)
qed

text \<open>
  The race on a fresh deployment: a concurrent session persists \<^verbatim>\<open>KEY1\<close> between the read and
  the insert. The call fails with the storage engine's \<^verbatim>\<open>IntegrityError\<close>, although a second
  read would have found the persisted key.
\<close>

theorem key_race_not_recovered:
  "get_fernet_encryption_interleaved demo_libs (concurrent_writer ''KEY1'') empty_world
     = Inl IntegrityError
   \<and> get_fernet_encryption demo_libs (concurrent_writer ''KEY1'' empty_world)
     = Inr (Fernet ''KEY1'', concurrent_writer ''KEY1'' empty_world)"
  by (simp add: get_fernet_encryption_interleaved_def get_fernet_encryption_def os_getenv_def
      read_configuration_by_key_def concurrent_writer_def empty_world_def first_use_key_def
      bytes_decode_def create_configuration_def configured_key_fernet_def str_field_def
      str_encode_def Fernet_init_def demo_libs_def Let_def)

lemma get_fernet_encryption_interleaved_alone:
  "get_fernet_encryption_interleaved L (\<lambda>w. w) w = get_fernet_encryption L w"
  by (simp add: get_fernet_encryption_interleaved_def get_fernet_encryption_def)

section \<open>Encryption round trip\<close>

lemma first_use_key_InrD:
  assumes "first_use_key L w = Inr (f, w1)"
  shows "f = Fernet (Fernet_generate_key L (entropy w))
       \<and> Fernet_key_ok L (Fernet_generate_key L (entropy w))
       \<and> w1 = w\<lparr>entropy := Suc (entropy w),
                 configuration := configuration w @ [key_entry (Fernet_generate_key L (entropy w))]\<rparr>"
  using assms
  by (auto simp: first_use_key_def bytes_decode_def create_configuration_def Fernet_init_def
      key_entry_def Let_def split: if_splits)

lemma get_fernet_encryption_stable:
  assumes "get_fernet_encryption L w = Inr (f, w1)"
  shows "get_fernet_encryption L (w1\<lparr>entropy := n\<rparr>) = Inr (f, w1\<lparr>entropy := n\<rparr>)"
proof (cases "no_override w")
  case False
  with assms show ?thesis
    by (auto simp: get_fernet_encryption_def os_getenv_def no_override_def split: sum.splits)
next
  case no: True
  show ?thesis
  proof (cases "read_configuration_by_key w ''BLOCK_ENCRYPTION_KEY''")
    case (Some c)
    with no assms have "configured_key_fernet L w c = Inr (f, w1)"
      by (auto simp: get_fernet_encryption_def os_getenv_def no_override_def)
    then have "w1 = w" and "configured_key_fernet L (w\<lparr>entropy := n\<rparr>) c = Inr (f, w\<lparr>entropy := n\<rparr>)"
      by (auto simp: configured_key_fernet_def split: sum.splits)
    with no Some show ?thesis
      by (auto simp: get_fernet_encryption_def os_getenv_def no_override_def
          read_configuration_by_key_def)
  next
    case None
    let ?g = "Fernet_generate_key L (entropy w)"
    from no None assms have "first_use_key L w = Inr (f, w1)"
      by (auto simp: get_fernet_encryption_def os_getenv_def no_override_def)
    from first_use_key_InrD[OF this]
    have f: "f = Fernet ?g" and ok: "Fernet_key_ok L ?g"
      and w1: "w1 = w\<lparr>entropy := Suc (entropy w), configuration := configuration w @ [key_entry ?g]\<rparr>"
      by simp_all
    have no1: "no_override (w1\<lparr>entropy := n\<rparr>)"
      using no by (simp add: w1 no_override_def)
    have "read_configuration_by_key (w1\<lparr>entropy := n\<rparr>) ''BLOCK_ENCRYPTION_KEY'' = Some (key_entry ?g)"
      using None by (simp add: w1 read_configuration_by_key_def find_append_last key_entry_def)
    from get_fernet_encryption_configured[OF no1 this ok] show ?thesis
      by (simp add: f)
  qed
qed

lemma get_fernet_encryption_key_ok:
  assumes "get_fernet_encryption L w = Inr (Fernet k, w1)"
  shows "Fernet_key_ok L k"
  using assms
  by (auto simp: get_fernet_encryption_def configured_key_fernet_def Fernet_init_def
      Let_def split: if_splits sum.splits option.splits dest!: first_use_key_InrD)

text \<open>
  Claim C1, as the code has it. With a Fernet that decrypts what it encrypted, and for a
  payload \<open>P\<close> that the JSON codec reads back as it wrote it: whenever \<^verbatim>\<open>encrypt_blockdata\<close>
  returns an envelope for \<open>P\<close>, \<^verbatim>\<open>decrypt_blockdata\<close> in the world it leaves returns \<open>P\<close>; and
  it does return an envelope whenever the key resolves, \<open>P\<close> serialises and the token decodes.
\<close>

theorem decrypt_encrypt_roundtrip:
  assumes "fernet_correct L" and "json_roundtrips L P"
  shows "(\<forall>E w1. encrypt_blockdata L w P = Inr (E, w1) \<longrightarrow> decrypt_blockdata L w1 E = Inr (P, w1))
       \<and> ((\<exists>k w0. get_fernet_encryption L w = Inr (Fernet k, w0)
                   \<and> (\<exists>s. json_dumps L P = Some s \<and> utf8_ok L (Fernet_encrypt L k (entropy w0) s)))
            \<longrightarrow> (\<exists>E w1. encrypt_blockdata L w P = Inr (E, w1)))"
proof (intro conjI allI impI)
  fix E w1
  assume enc: "encrypt_blockdata L w P = Inr (E, w1)"
  then obtain k w0 s where key: "get_fernet_encryption L w = Inr (Fernet k, w0)"
    and dumps: "json_dumps L P = Some s"
    and tok: "utf8_ok L (Fernet_encrypt L k (entropy w0) s)"
    and E: "E = PDict [''encrypted_blob'' \<mapsto> PStr (Fernet_encrypt L k (entropy w0) s)]"
    and w1: "w1 = w0\<lparr>entropy := Suc (entropy w0)\<rparr>"
    by (auto simp: encrypt_blockdata_def bytes_decode_def str_encode_def Let_def
        split: sum.splits option.splits fernet.splits if_splits)
  have key1: "get_fernet_encryption L w1 = Inr (Fernet k, w1)"
    unfolding w1 by (rule get_fernet_encryption_stable[OF key])
  have "Fernet_key_ok L k"
    by (rule get_fernet_encryption_key_ok[OF key])
  with assms(1) have dec: "Fernet_decrypt L k (Fernet_encrypt L k (entropy w0) s) = Some s"
    by (simp add: fernet_correct_def)
  from assms(2) dumps have "utf8_ok L s" and "json_loads L s = Some P"
    by (simp_all add: json_roundtrips_def)
  with key1 dec show "decrypt_blockdata L w1 E = Inr (P, w1)"
    by (simp add: decrypt_blockdata_def E str_field_def str_encode_def bytes_decode_def)
next
  assume "\<exists>k w0. get_fernet_encryption L w = Inr (Fernet k, w0)
                   \<and> (\<exists>s. json_dumps L P = Some s \<and> utf8_ok L (Fernet_encrypt L k (entropy w0) s))"
  then show "\<exists>E w1. encrypt_blockdata L w P = Inr (E, w1)"
    by (auto simp: encrypt_blockdata_def bytes_decode_def str_encode_def Let_def)
qed

lemma demo_libs_fernet_correct: "fernet_correct demo_libs"
  by (simp add: fernet_correct_def demo_libs_def)

lemma demo_libs_json_roundtrips: "json_roundtrips demo_libs example_payload"
  by (simp add: json_roundtrips_def demo_libs_def example_payload_def)

theorem decrypt_encrypt_roundtrip_witness:
  "fernet_correct demo_libs \<and> json_roundtrips demo_libs example_payload
   \<and> get_fernet_encryption demo_libs empty_world
       = Inr (Fernet ''KEY0'', empty_world\<lparr>entropy := 1, configuration := [key_entry ''KEY0'']\<rparr>)
   \<and> json_dumps demo_libs example_payload = Some ''{token: abc}''
   \<and> utf8_ok demo_libs (Fernet_encrypt demo_libs ''KEY0'' 1 ''{token: abc}'')
   \<and> (\<exists>E w1. encrypt_blockdata demo_libs empty_world example_payload = Inr (E, w1)
         \<and> E = PDict [''encrypted_blob'' \<mapsto> PStr ''KEY0{token: abc}'']
         \<and> decrypt_blockdata demo_libs w1 E = Inr (example_payload, w1))"
proof -
  have key: "get_fernet_encryption demo_libs empty_world
       = Inr (Fernet ''KEY0'', empty_world\<lparr>entropy := 1, configuration := [key_entry ''KEY0'']\<rparr>)"
    by (simp add: get_fernet_encryption_def os_getenv_def read_configuration_by_key_def
        empty_world_def first_use_key_def bytes_decode_def create_configuration_def
        Fernet_init_def demo_libs_def key_entry_def Let_def)
  have dumps: "json_dumps demo_libs example_payload = Some ''{token: abc}''"
    by (simp add: demo_libs_def example_payload_def)
  have tok: "utf8_ok demo_libs (Fernet_encrypt demo_libs ''KEY0'' 1 ''{token: abc}'')"
    by (simp add: demo_libs_def)
  have enc: "encrypt_blockdata demo_libs empty_world example_payload =
      Inr (PDict [''encrypted_blob'' \<mapsto> PStr ''KEY0{token: abc}''],
           \<lparr>environ = Map.empty, configuration = [key_entry ''KEY0''], block_data = [], entropy = 2\<rparr>)"
    by (simp add: encrypt_blockdata_def get_fernet_encryption_def os_getenv_def
      read_configuration_by_key_def empty_world_def first_use_key_def
      bytes_decode_def create_configuration_def str_encode_def Fernet_init_def demo_libs_def
      example_payload_def key_entry_def Let_def)
  with decrypt_encrypt_roundtrip[OF demo_libs_fernet_correct demo_libs_json_roundtrips,
      of empty_world]
  show ?thesis
    using demo_libs_fernet_correct demo_libs_json_roundtrips key dumps tok by simp
qed

text \<open>A token that Fernet rejects makes \<^verbatim>\<open>decrypt_blockdata\<close> raise \<^verbatim>\<open>InvalidToken\<close>; no value
  is returned.\<close>

lemma decrypt_blockdata_rejected_token:
  assumes "get_fernet_encryption L w = Inr (Fernet k, w1)"
    and "Fernet_decrypt L k t = None"
  shows "decrypt_blockdata L w (PDict [''encrypted_blob'' \<mapsto> PStr t]) = Inl InvalidToken"
  using assms by (simp add: decrypt_blockdata_def str_field_def str_encode_def)

lemma encrypt_blockdata_InrD:
  assumes "encrypt_blockdata L w P = Inr (E, w1)"
  shows "\<exists>k w0 s. get_fernet_encryption L w = Inr (Fernet k, w0)
           \<and> json_dumps L P = Some s
           \<and> utf8_ok L (Fernet_encrypt L k (entropy w0) s)
           \<and> E = PDict [''encrypted_blob'' \<mapsto> PStr (Fernet_encrypt L k (entropy w0) s)]
           \<and> w1 = w0\<lparr>entropy := Suc (entropy w0)\<rparr>"
  using assms
  by (auto simp: encrypt_blockdata_def bytes_decode_def str_encode_def Let_def
      split: sum.splits option.splits fernet.splits if_splits)

lemma decrypt_blockdata_blob:
  assumes "get_fernet_encryption L w = Inr (Fernet k, w)"
  shows "decrypt_blockdata L w (PDict [''encrypted_blob'' \<mapsto> PStr t]) =
           (case Fernet_decrypt L k t of
              None \<Rightarrow> Inl InvalidToken
            | Some plain \<Rightarrow>
                if utf8_ok L plain
                then (case json_loads L plain of
                        None \<Rightarrow> Inl JSONDecodeError
                      | Some v \<Rightarrow> Inr (v, w))
                else Inl UnicodeDecodeError)"
  using assms
  by (simp add: decrypt_blockdata_def str_field_def str_encode_def bytes_decode_def
      split: option.splits)

text \<open>
  What comes back is what \<^verbatim>\<open>json.loads\<close> reads from the text \<^verbatim>\<open>json.dumps\<close> wrote: the round
  trip returns the payload exactly where the JSON codec does.
\<close>

lemma decrypt_returns_what_json_reads:
  assumes "fernet_correct L"
    and "encrypt_blockdata L w P = Inr (E, w1)"
    and "decrypt_blockdata L w1 E = Inr (P', w2)"
  shows "\<exists>s. json_dumps L P = Some s \<and> json_loads L s = Some P'"
proof -
  from encrypt_blockdata_InrD[OF assms(2)]
  obtain k w0 s where key: "get_fernet_encryption L w = Inr (Fernet k, w0)"
    and dumps: "json_dumps L P = Some s"
    and E: "E = PDict [''encrypted_blob'' \<mapsto> PStr (Fernet_encrypt L k (entropy w0) s)]"
    and w1: "w1 = w0\<lparr>entropy := Suc (entropy w0)\<rparr>"
    by blast
  have key1: "get_fernet_encryption L w1 = Inr (Fernet k, w1)"
    unfolding w1 by (rule get_fernet_encryption_stable[OF key])
  have "Fernet_key_ok L k"
    by (rule get_fernet_encryption_key_ok[OF key])
  with assms(1) have "Fernet_decrypt L k (Fernet_encrypt L k (entropy w0) s) = Some s"
    by (simp add: fernet_correct_def)
  with assms(3) have "json_loads L s = Some P'"
    by (auto simp: E decrypt_blockdata_blob[OF key1] split: if_splits option.splits)
  with dumps show ?thesis by simp
qed

text \<open>
  The claim as worded, for every payload mapping, fails on a payload that holds a tuple:
  \<^verbatim>\<open>json.dumps\<close> writes the tuple as an array and \<^verbatim>\<open>json.loads\<close> reads a list, so the
  payload comes back with a list in its place, and it is not equal to what went in.
\<close>

theorem tuple_payload_comes_back_changed:
  "encrypt_blockdata demo_libs empty_world tuple_payload
     = Inr (PDict [''encrypted_blob'' \<mapsto> PStr ''KEY0{token: [a, b]}''],
            empty_world\<lparr>entropy := 2, configuration := [key_entry ''KEY0'']\<rparr>)
   \<and> decrypt_blockdata demo_libs
         (empty_world\<lparr>entropy := 2, configuration := [key_entry ''KEY0'']\<rparr>)
         (PDict [''encrypted_blob'' \<mapsto> PStr ''KEY0{token: [a, b]}''])
     = Inr (list_payload, empty_world\<lparr>entropy := 2, configuration := [key_entry ''KEY0'']\<rparr>)
   \<and> list_payload \<noteq> tuple_payload"
proof (intro conjI)
  show "encrypt_blockdata demo_libs empty_world tuple_payload
     = Inr (PDict [''encrypted_blob'' \<mapsto> PStr ''KEY0{token: [a, b]}''],
            empty_world\<lparr>entropy := 2, configuration := [key_entry ''KEY0'']\<rparr>)"
    by (simp add: encrypt_blockdata_def get_fernet_encryption_def os_getenv_def
      read_configuration_by_key_def empty_world_def first_use_key_def
      bytes_decode_def create_configuration_def str_encode_def Fernet_init_def demo_libs_def
      tuple_payload_def key_entry_def Let_def)
  show "decrypt_blockdata demo_libs
         (empty_world\<lparr>entropy := 2, configuration := [key_entry ''KEY0'']\<rparr>)
         (PDict [''encrypted_blob'' \<mapsto> PStr ''KEY0{token: [a, b]}''])
     = Inr (list_payload, empty_world\<lparr>entropy := 2, configuration := [key_entry ''KEY0'']\<rparr>)"
    by (simp add: decrypt_blockdata_def get_fernet_encryption_def os_getenv_def
        read_configuration_by_key_def empty_world_def key_entry_def
        configured_key_fernet_def str_field_def str_encode_def Fernet_init_def bytes_decode_def
        demo_libs_def list_payload_def)
  show "list_payload \<noteq> tuple_payload"
    by (auto simp: list_payload_def tuple_payload_def dest: map_upd_eqD1)
qed

text \<open>
  Claim C4, as the code has it. For an envelope that \<^verbatim>\<open>encrypt_blockdata\<close> produced and a
  blob that differs from its blob in one byte: \<^verbatim>\<open>decrypt_blockdata\<close> raises
  \<^verbatim>\<open>InvalidToken\<close>, and returns nothing, exactly when Fernet rejects the changed blob under
  the key in use. The module adds no check of its own.
\<close>

theorem tampered_blob_rejected_when_fernet_rejects:
  assumes "encrypt_blockdata L w P = Inr (E, w1)"
  shows "\<exists>k t. get_fernet_encryption L w1 = Inr (Fernet k, w1)
           \<and> E = PDict [''encrypted_blob'' \<mapsto> PStr t]
           \<and> (\<forall>t'. one_byte_change t t' \<longrightarrow>
                 (decrypt_blockdata L w1 (PDict [''encrypted_blob'' \<mapsto> PStr t']) = Inl InvalidToken)
                   = (Fernet_decrypt L k t' = None))"
proof -
  from encrypt_blockdata_InrD[OF assms]
  obtain k w0 s where key: "get_fernet_encryption L w = Inr (Fernet k, w0)"
    and E: "E = PDict [''encrypted_blob'' \<mapsto> PStr (Fernet_encrypt L k (entropy w0) s)]"
    and w1: "w1 = w0\<lparr>entropy := Suc (entropy w0)\<rparr>"
    by blast
  have key1: "get_fernet_encryption L w1 = Inr (Fernet k, w1)"
    unfolding w1 by (rule get_fernet_encryption_stable[OF key])
  have "(decrypt_blockdata L w1 (PDict [''encrypted_blob'' \<mapsto> PStr t']) = Inl InvalidToken)
          = (Fernet_decrypt L k t' = None)" for t'
    by (simp add: decrypt_blockdata_blob[OF key1] split: option.splits)
  with key1 E show ?thesis by blast
qed

text \<open>The token of the example payload, and what the base64 decoder reads from two blobs that
  differ from it in one byte.\<close>

lemma b64_token: "urlsafe_b64encode ''KEY0{token: abc}'' = ''S0VZMHt0b2tlbjogYWJjfQ==''"
  by code_simp

lemma b64_same_bytes: "urlsafe_b64decode ''S0VZMHt0b2tlbjogYWJjfR=='' = Some ''KEY0{token: abc}''"
  by code_simp

lemma b64_other_bytes: "urlsafe_b64decode ''T0VZMHt0b2tlbjogYWJjfQ=='' = Some ''OEY0{token: abc}''"
  by code_simp

lemma last_digit_change:
  "one_byte_change ''S0VZMHt0b2tlbjogYWJjfQ=='' ''S0VZMHt0b2tlbjogYWJjfR==''"
  by code_simp

lemma first_digit_change:
  "one_byte_change ''S0VZMHt0b2tlbjogYWJjfQ=='' ''T0VZMHt0b2tlbjogYWJjfQ==''"
  by code_simp

lemma base64_libs_encrypt:
  "encrypt_blockdata base64_libs empty_world example_payload
     = Inr (PDict [''encrypted_blob'' \<mapsto> PStr ''S0VZMHt0b2tlbjogYWJjfQ==''],
            empty_world\<lparr>entropy := 2, configuration := [key_entry ''KEY0'']\<rparr>)"
  by (simp add: encrypt_blockdata_def get_fernet_encryption_def os_getenv_def
      read_configuration_by_key_def empty_world_def first_use_key_def
      bytes_decode_def create_configuration_def str_encode_def Fernet_init_def
      base64_libs_def demo_libs_def example_payload_def key_entry_def Let_def b64_token
      del: urlsafe_b64encode.simps)

lemma base64_libs_key:
  "get_fernet_encryption base64_libs
       (empty_world\<lparr>entropy := 2, configuration := [key_entry ''KEY0'']\<rparr>)
     = Inr (Fernet ''KEY0'', empty_world\<lparr>entropy := 2, configuration := [key_entry ''KEY0'']\<rparr>)"
  by (simp add: get_fernet_encryption_def os_getenv_def read_configuration_by_key_def
      empty_world_def key_entry_def configured_key_fernet_def str_field_def str_encode_def
      Fernet_init_def base64_libs_def demo_libs_def)

text \<open>
  The claim as worded, for every one-byte change, fails where the change only touches bits
  that the base64 decoding of the token drops: the last digit before the padding carries
  four such bits. The changed blob decodes to the same bytes, Fernet accepts it, and
  \<^verbatim>\<open>decrypt_blockdata\<close> returns the payload.
\<close>

theorem tampered_blob_accepted:
  "encrypt_blockdata base64_libs empty_world example_payload
     = Inr (PDict [''encrypted_blob'' \<mapsto> PStr ''S0VZMHt0b2tlbjogYWJjfQ==''],
            empty_world\<lparr>entropy := 2, configuration := [key_entry ''KEY0'']\<rparr>)
   \<and> one_byte_change ''S0VZMHt0b2tlbjogYWJjfQ=='' ''S0VZMHt0b2tlbjogYWJjfR==''
   \<and> decrypt_blockdata base64_libs
         (empty_world\<lparr>entropy := 2, configuration := [key_entry ''KEY0'']\<rparr>)
         (PDict [''encrypted_blob'' \<mapsto> PStr ''S0VZMHt0b2tlbjogYWJjfR==''])
     = Inr (example_payload, empty_world\<lparr>entropy := 2, configuration := [key_entry ''KEY0'']\<rparr>)"
proof (intro conjI)
  have "Fernet_decrypt base64_libs ''KEY0'' ''S0VZMHt0b2tlbjogYWJjfR=='' = Some ''{token: abc}''"
    by (simp add: base64_libs_def demo_libs_def b64_same_bytes)
  moreover have "utf8_ok base64_libs ''{token: abc}''"
    by (simp add: base64_libs_def demo_libs_def)
  moreover have "json_loads base64_libs ''{token: abc}'' = Some example_payload"
    by (simp add: base64_libs_def demo_libs_def example_payload_def)
  ultimately show "decrypt_blockdata base64_libs
         (empty_world\<lparr>entropy := 2, configuration := [key_entry ''KEY0'']\<rparr>)
         (PDict [''encrypted_blob'' \<mapsto> PStr ''S0VZMHt0b2tlbjogYWJjfR==''])
     = Inr (example_payload, empty_world\<lparr>entropy := 2, configuration := [key_entry ''KEY0'']\<rparr>)"
    by (simp add: decrypt_blockdata_blob[OF base64_libs_key])
qed (rule base64_libs_encrypt, rule last_digit_change)

theorem tampered_blob_rejected_when_fernet_rejects_witness:
  "encrypt_blockdata base64_libs empty_world example_payload
     = Inr (PDict [''encrypted_blob'' \<mapsto> PStr ''S0VZMHt0b2tlbjogYWJjfQ==''],
            empty_world\<lparr>entropy := 2, configuration := [key_entry ''KEY0'']\<rparr>)
   \<and> one_byte_change ''S0VZMHt0b2tlbjogYWJjfQ=='' ''T0VZMHt0b2tlbjogYWJjfQ==''
   \<and> Fernet_decrypt base64_libs ''KEY0'' ''T0VZMHt0b2tlbjogYWJjfQ=='' = None
   \<and> decrypt_blockdata base64_libs
         (empty_world\<lparr>entropy := 2, configuration := [key_entry ''KEY0'']\<rparr>)
         (PDict [''encrypted_blob'' \<mapsto> PStr ''T0VZMHt0b2tlbjogYWJjfQ==''])
     = Inl InvalidToken"
proof -
  let ?w1 = "empty_world\<lparr>entropy := 2, configuration := [key_entry ''KEY0'']\<rparr>"
  let ?t = "''S0VZMHt0b2tlbjogYWJjfQ==''"
  let ?t' = "''T0VZMHt0b2tlbjogYWJjfQ==''"
  have rej: "Fernet_decrypt base64_libs ''KEY0'' ?t' = None"
    by (simp add: base64_libs_def demo_libs_def b64_other_bytes)
  from tampered_blob_rejected_when_fernet_rejects[OF base64_libs_encrypt]
  obtain k t where key: "get_fernet_encryption base64_libs ?w1 = Inr (Fernet k, ?w1)"
    and E: "PDict [''encrypted_blob'' \<mapsto> PStr ?t] = PDict [''encrypted_blob'' \<mapsto> PStr t]"
    and all: "\<forall>t'. one_byte_change t t' \<longrightarrow>
                 (decrypt_blockdata base64_libs ?w1 (PDict [''encrypted_blob'' \<mapsto> PStr t']) = Inl InvalidToken)
                   = (Fernet_decrypt base64_libs k t' = None)"
    by blast
  from key have k: "k = ''KEY0''"
    by (simp add: base64_libs_key)
  from E have t: "t = ?t"
    by (auto dest: map_upd_eqD1)
  from all first_digit_change rej
  have "decrypt_blockdata base64_libs ?w1 (PDict [''encrypted_blob'' \<mapsto> PStr ?t']) = Inl InvalidToken"
    unfolding k t by blast
  with base64_libs_encrypt first_digit_change rej show ?thesis
    by blast
qed

section \<open>Reading and deleting\<close>

lemma scalar_filter_absent:
  assumes "\<not> (\<exists>r\<in>set rows. P r)"
  shows "scalar (filter P rows) = None"
proof -
  from assms have "filter P rows = []"
    by (simp add: filter_empty_conv)
  then show ?thesis
    by (simp add: scalar_def)
qed

lemma filter_not_shorter_iff:
  "length (filter (\<lambda>x. \<not> P x) xs) < length xs \<longleftrightarrow> (\<exists>x\<in>set xs. P x)"
proof
  assume "length (filter (\<lambda>x. \<not> P x) xs) < length xs"
  then have "filter (\<lambda>x. \<not> P x) xs \<noteq> xs" by auto
  then show "\<exists>x\<in>set xs. P x" by (auto simp: filter_id_conv)
next
  assume "\<exists>x\<in>set xs. P x"
  then obtain x where "x \<in> set xs" and "\<not> \<not> P x" by auto
  then show "length (filter (\<lambda>x. \<not> P x) xs) < length xs"
    by (rule length_filter_less)
qed

lemma delete_block_data_by_name_rows:
  "block_data (snd (delete_block_data_by_name w name)) = filter (\<lambda>r. \<not> name_is name r) (block_data w)"
  by (simp add: delete_block_data_by_name_def Let_def)

lemma delete_block_data_by_name_result:
  "fst (delete_block_data_by_name w name) = (\<exists>r\<in>set (block_data w). name_is name r)"
  by (auto simp: delete_block_data_by_name_def Let_def filter_empty_conv)

lemma delete_block_data_by_name_absent:
  "\<not> (\<exists>r\<in>set (block_data w). name_is name r) \<Longrightarrow> delete_block_data_by_name w name = (False, w)"
  by (simp add: delete_block_data_by_name_def Let_def filter_empty_conv filter_id_conv)

text \<open>
  Claim C9. Absence is a result, not an exception: for a name (an id) that no row has, the
  read returns \<^verbatim>\<open>None\<close> and the delete returns \<^verbatim>\<open>False\<close>, the world unchanged. The delete
  returns \<^verbatim>\<open>True\<close> exactly when a row has the name, which is exactly when rows were removed;
  a second delete of the name then returns \<^verbatim>\<open>False\<close> and a read of it \<^verbatim>\<open>None\<close>.
\<close>

theorem absence_is_a_result:
  shows "(\<not> (\<exists>r\<in>set (block_data w). name_is name r) \<longrightarrow>
            read_block_data_by_name_as_block L w name = Inr (None, w)
            \<and> delete_block_data_by_name w name = (False, w))
       \<and> (\<not> (\<exists>r\<in>set (block_data w). id_is block_data_id r) \<longrightarrow>
            read_block_data_as_block L w block_data_id = Inr (None, w))
       \<and> fst (delete_block_data_by_name w name) = (\<exists>r\<in>set (block_data w). name_is name r)
       \<and> fst (delete_block_data_by_name w name)
           = (length (block_data (snd (delete_block_data_by_name w name))) < length (block_data w))
       \<and> delete_block_data_by_name (snd (delete_block_data_by_name w name)) name
           = (False, snd (delete_block_data_by_name w name))
       \<and> read_block_data_by_name_as_block L (snd (delete_block_data_by_name w name)) name
           = Inr (None, snd (delete_block_data_by_name w name))"
proof (intro conjI impI)
  assume absent: "\<not> (\<exists>r\<in>set (block_data w). name_is name r)"
  show "read_block_data_by_name_as_block L w name = Inr (None, w)"
    by (simp add: read_block_data_by_name_as_block_def scalar_filter_absent[OF absent])
next
  assume "\<not> (\<exists>r\<in>set (block_data w). name_is name r)"
  then show "delete_block_data_by_name w name = (False, w)"
    by (rule delete_block_data_by_name_absent)
next
  assume absent: "\<not> (\<exists>r\<in>set (block_data w). id_is block_data_id r)"
  show "read_block_data_as_block L w block_data_id = Inr (None, w)"
    by (simp add: read_block_data_as_block_def scalar_filter_absent[OF absent])
next
  show "fst (delete_block_data_by_name w name) = (\<exists>r\<in>set (block_data w). name_is name r)"
    by (rule delete_block_data_by_name_result)
next
  show "fst (delete_block_data_by_name w name)
           = (length (block_data (snd (delete_block_data_by_name w name))) < length (block_data w))"
    by (simp add: delete_block_data_by_name_result delete_block_data_by_name_rows
        filter_not_shorter_iff)
next
  let ?w' = "snd (delete_block_data_by_name w name)"
  have gone: "\<not> (\<exists>r\<in>set (block_data ?w'). name_is name r)"
    by (simp add: delete_block_data_by_name_rows)
  show "delete_block_data_by_name ?w' name = (False, ?w')"
    by (rule delete_block_data_by_name_absent[OF gone])
  show "read_block_data_by_name_as_block L ?w' name = Inr (None, ?w')"
    by (simp add: read_block_data_by_name_as_block_def scalar_filter_absent[OF gone])
qed

theorem absence_is_a_result_witness:
  "\<not> (\<exists>r\<in>set (block_data stored_world). name_is ''zz'' r)
   \<and> \<not> (\<exists>r\<in>set (block_data stored_world). id_is ''Y'' r)
   \<and> read_block_data_by_name_as_block demo_libs stored_world ''zz'' = Inr (None, stored_world)
   \<and> delete_block_data_by_name stored_world ''zz'' = (False, stored_world)
   \<and> read_block_data_as_block demo_libs stored_world ''Y'' = Inr (None, stored_world)
   \<and> fst (delete_block_data_by_name stored_world ''k1'')
   \<and> delete_block_data_by_name (snd (delete_block_data_by_name stored_world ''k1'')) ''k1''
       = (False, snd (delete_block_data_by_name stored_world ''k1''))
   \<and> read_block_data_by_name_as_block demo_libs (snd (delete_block_data_by_name stored_world ''k1'')) ''k1''
       = Inr (None, snd (delete_block_data_by_name stored_world ''k1''))"
proof -
  have zz: "\<not> (\<exists>r\<in>set (block_data stored_world). name_is ''zz'' r)"
    by (simp add: stored_world_def stored_row_def name_is_def)
  have y: "\<not> (\<exists>r\<in>set (block_data stored_world). id_is ''Y'' r)"
    by (simp add: stored_world_def stored_row_def id_is_def)
  have k1: "\<exists>r\<in>set (block_data stored_world). name_is ''k1'' r"
    by (simp add: stored_world_def stored_row_def name_is_def)
  from absence_is_a_result[of stored_world "''zz''" demo_libs "''Y''"]
    absence_is_a_result[of stored_world "''k1''" demo_libs "''Y''"] zz y k1
  show ?thesis by blast
qed

lemma read_stored_block:
  "read_block_data_by_name_as_block demo_libs stored_world ''k1'' =
     Inr (Some [''token'' \<mapsto> Val (PStr ''abc''), ''blockname'' \<mapsto> Val (PStr ''k1''),
                ''blockref'' \<mapsto> Val (PStr ''secret-block''), ''blockid'' \<mapsto> Val (PStr ''X'')],
          stored_world)"
proof -
  have dec: "decrypt_blockdata demo_libs stored_world (column stored_row ''data'')
      = Inr (PDict [''token'' \<mapsto> PStr ''abc''], stored_world)"
    by (simp add: decrypt_blockdata_def get_fernet_encryption_def os_getenv_def
        read_configuration_by_key_def stored_world_def stored_row_def column_def key_entry_def
        configured_key_fernet_def str_field_def str_encode_def Fernet_init_def bytes_decode_def
        demo_libs_def)
  let ?rec = "[''name'' \<mapsto> Val (column stored_row ''name''),
                 ''blockref'' \<mapsto> Val (column stored_row ''blockref''),
                 ''blockid'' \<mapsto> Val (column stored_row ''id''),
                 ''data'' \<mapsto> Val (PDict [''token'' \<mapsto> PStr ''abc''])]"
  have "unpack_blockdata [?rec] 0 =
     Inr (length [?rec],
          [?rec][0 := ([?rec] ! 0)(''name'' := None, ''blockref'' := None, ''blockid'' := None)]
            @ [(map_option Val \<circ> [''token'' \<mapsto> PStr ''abc''])
                (''blockname'' \<mapsto> field_or_none ([?rec] ! 0) ''name'',
                 ''blockref'' \<mapsto> field_or_none ([?rec] ! 0) ''blockref'',
                 ''blockid'' \<mapsto> field_or_none ([?rec] ! 0) ''blockid'')])"
  proof (rule unpack_blockdata_result)
    show "0 < length [?rec]" by simp
    show "([?rec] ! 0) ''data'' = Some (Val (PDict [''token'' \<mapsto> PStr ''abc'']))" by simp
    show "as_mapping [?rec] (Val (PDict [''token'' \<mapsto> PStr ''abc'']))
        = Some (map_option Val \<circ> [''token'' \<mapsto> PStr ''abc''])"
      by (simp only: as_mapping_def slot.case pyval.case)
  qed
  moreover have "(map_option Val \<circ> [''token'' \<mapsto> PStr ''abc''])
                (''blockname'' \<mapsto> field_or_none ([?rec] ! 0) ''name'',
                 ''blockref'' \<mapsto> field_or_none ([?rec] ! 0) ''blockref'',
                 ''blockid'' \<mapsto> field_or_none ([?rec] ! 0) ''blockid'')
     = [''token'' \<mapsto> Val (PStr ''abc''), ''blockname'' \<mapsto> Val (PStr ''k1''),
                ''blockref'' \<mapsto> Val (PStr ''secret-block''), ''blockid'' \<mapsto> Val (PStr ''X'')]"
    by (rule ext) (simp add: field_or_none_def column_def stored_row_def)
  ultimately have "unpack_blockdata [?rec] 0 =
     Inr (1, [?rec][0 := ([?rec] ! 0)(''name'' := None, ''blockref'' := None, ''blockid'' := None)]
            @ [ [''token'' \<mapsto> Val (PStr ''abc''), ''blockname'' \<mapsto> Val (PStr ''k1''),
                ''blockref'' \<mapsto> Val (PStr ''secret-block''), ''blockid'' \<mapsto> Val (PStr ''X'')] ])"
    by simp
  with dec have "row_as_block demo_libs stored_world stored_row =
     Inr (Some [''token'' \<mapsto> Val (PStr ''abc''), ''blockname'' \<mapsto> Val (PStr ''k1''),
                ''blockref'' \<mapsto> Val (PStr ''secret-block''), ''blockid'' \<mapsto> Val (PStr ''X'')],
          stored_world)"
    by (simp add: row_as_block_def Let_def del: fun_upd_apply)
  moreover have "scalar (filter (name_is ''k1'') (block_data stored_world)) = Some stored_row"
    by (simp add: scalar_def stored_world_def name_is_def stored_row_def)
  ultimately show ?thesis
    by (simp add: read_block_data_by_name_as_block_def)
qed

section \<open>Updating\<close>

lemma not_none_eq_None: "not_none f k = None \<longleftrightarrow> f k = None \<or> f k = Some PNone"
  by (auto simp: not_none_def split: option.splits pyval.splits)

lemma not_none_eq_Some: "not_none f k = Some v \<longleftrightarrow> f k = Some v \<and> v \<noteq> PNone"
  by (auto simp: not_none_def split: option.splits pyval.splits)

lemma not_none_idem: "not_none (not_none f) = not_none f"
  by (rule ext) (simp add: not_none_def split: option.splits pyval.splits)

lemma get_fernet_encryption_block_data:
  assumes "get_fernet_encryption L w = Inr (f, w1)"
  shows "block_data w1 = block_data w"
  using assms
  by (auto simp: get_fernet_encryption_def configured_key_fernet_def Let_def
      split: if_splits sum.splits option.splits dest!: first_use_key_InrD)

lemma encrypt_blockdata_block_data:
  assumes "encrypt_blockdata L w d = Inr (E, w1)"
  shows "block_data w1 = block_data w"
  using assms
  by (auto simp: encrypt_blockdata_def Let_def
      split: sum.splits option.splits fernet.splits dest!: get_fernet_encryption_block_data)

lemma execute_update_Inr:
  "execute_update w name vals = Inr (b, w') \<longleftrightarrow>
     constraints_hold (map (\<lambda>r. if name_is name r then r ++ vals else r) (block_data w))
     \<and> b = (\<exists>r\<in>set (block_data w). name_is name r)
     \<and> w' = w\<lparr>block_data := map (\<lambda>r. if name_is name r then r ++ vals else r) (block_data w)\<rparr>"
  by (auto simp: execute_update_def Let_def filter_empty_conv)

lemma execute_update_Inl:
  "execute_update w name vals = Inl e \<longleftrightarrow>
     \<not> constraints_hold (map (\<lambda>r. if name_is name r then r ++ vals else r) (block_data w))
     \<and> e = IntegrityError"
  by (auto simp: execute_update_def Let_def)

lemma update_block_data_cases:
  "update_block_data L w name set_fields =
     (case not_none set_fields ''data'' of
        None \<Rightarrow> execute_update w name (not_none set_fields)
      | Some d \<Rightarrow>
         (case encrypt_blockdata L w d of
            Inl e \<Rightarrow> Inl e
          | Inr (E, w1) \<Rightarrow> execute_update w1 name ((not_none set_fields)(''data'' \<mapsto> E))))"
  by (simp add: update_block_data_def Let_def)

text \<open>Every run of \<^verbatim>\<open>update_block_data\<close> ends in one update statement, or in the exception
  of the encryption.\<close>

lemma update_block_data_statement:
  "(\<exists>d e. not_none set_fields ''data'' = Some d \<and> encrypt_blockdata L w d = Inl e
          \<and> update_block_data L w name set_fields = Inl e)
   \<or> (\<exists>w1 vals. update_block_data L w name set_fields = execute_update w1 name vals
           \<and> block_data w1 = block_data w
           \<and> (\<forall>k. k \<noteq> ''data'' \<longrightarrow> vals k = not_none set_fields k)
           \<and> (not_none set_fields ''data'' = None \<longrightarrow> vals ''data'' = None)
           \<and> (\<forall>d. not_none set_fields ''data'' = Some d \<longrightarrow>
                 (\<exists>E w2. encrypt_blockdata L w d = Inr (E, w2) \<and> vals ''data'' = Some E)))"
proof (cases "not_none set_fields ''data''")
  case None
  then have "update_block_data L w name set_fields = execute_update w name (not_none set_fields)"
    by (simp add: update_block_data_cases)
  with None show ?thesis
    by (intro disjI2 exI[of _ w] exI[of _ "not_none set_fields"]) simp
next
  case (Some d)
  show ?thesis
  proof (cases "encrypt_blockdata L w d")
    case (Inl e)
    with Some show ?thesis
      by (simp add: update_block_data_cases)
  next
    case (Inr p)
    obtain E w1 where p: "p = (E, w1)" by (cases p)
    from Inr p have rows: "block_data w1 = block_data w"
      by (auto dest: encrypt_blockdata_block_data)
    from Some Inr p
    have "update_block_data L w name set_fields
            = execute_update w1 name ((not_none set_fields)(''data'' \<mapsto> E))"
      by (simp add: update_block_data_cases)
    with Some Inr p rows show ?thesis
      by (intro disjI2 exI[of _ w1] exI[of _ "(not_none set_fields)(''data'' \<mapsto> E)"]) simp
  qed
qed

lemma set_map_filter_conv:
  "v \<in> set (List.map_filter f xs) \<longleftrightarrow> (\<exists>x\<in>set xs. f x = Some v)"
  by (induction xs) (auto simp: List.map_filter_simps split: option.splits)

lemma unique_column_nth:
  assumes "unique_column c rows"
    and "i < length rows" and "j < length rows" and "i \<noteq> j"
    and "(rows ! i) c = Some v"
  shows "(rows ! j) c \<noteq> Some v"
  using assms unfolding unique_column_def
proof (induction rows arbitrary: i j)
  case Nil
  then show ?case by simp
next
  case (Cons r rows)
  show ?case
  proof (cases i)
    case 0
    with Cons.prems obtain j' where j: "j = Suc j'" and j': "j' < length rows"
      by (cases j) auto
    from 0 Cons.prems have "r c = Some v" by simp
    with Cons.prems(1) have "v \<notin> set (List.map_filter (\<lambda>r. r c) rows)"
      by (simp add: List.map_filter_simps)
    with j' have "(rows ! j') c \<noteq> Some v"
      by (auto simp: set_map_filter_conv)
    with j show ?thesis by simp
  next
    case (Suc i')
    note i = Suc
    show ?thesis
    proof (cases j)
      case 0
      from i Cons.prems have i': "i' < length rows" and v: "(rows ! i') c = Some v"
        by simp_all
      show ?thesis
      proof
        assume "((r # rows) ! j) c = Some v"
        with 0 have "r c = Some v" by simp
        with Cons.prems(1) have "v \<notin> set (List.map_filter (\<lambda>r. r c) rows)"
          by (simp add: List.map_filter_simps)
        with i' v show False
          by (auto simp: set_map_filter_conv)
      qed
    next
      case (Suc j')
      from Cons.prems(1) have "distinct (List.map_filter (\<lambda>r. r c) rows)"
        by (simp add: List.map_filter_simps split: option.splits)
      from Cons.IH[OF this, of i' j'] i Suc Cons.prems show ?thesis
        by simp
    qed
  qed
qed

lemma unique_column_untouched:
  assumes "vals c = None"
  shows "unique_column c (map (\<lambda>r. if P r then r ++ vals else r) rows) = unique_column c rows"
proof -
  have "List.map_filter (\<lambda>r. r c) (map (\<lambda>r. if P r then r ++ vals else r) rows)
          = List.map_filter (\<lambda>r. r c) rows"
    using assms by (induction rows) (auto simp: List.map_filter_simps map_add_def split: option.splits)
  then show ?thesis
    by (simp add: unique_column_def)
qed

lemma rename_onto_existing_name:
  assumes "\<exists>r\<in>set rows. name_is name r" and "\<exists>r\<in>set rows. name_is n2 r" and "n2 \<noteq> name"
    and "vals ''name'' = Some (PStr n2)"
  shows "\<not> constraints_hold (map (\<lambda>r. if name_is name r then r ++ vals else r) rows)"
proof
  let ?rows' = "map (\<lambda>r. if name_is name r then r ++ vals else r) rows"
  assume "constraints_hold ?rows'"
  then have u: "unique_column ''name'' ?rows'"
    by (simp add: constraints_hold_def)
  from assms(1) obtain i where i: "i < length rows" and ri: "name_is name (rows ! i)"
    by (auto simp: in_set_conv_nth)
  from assms(2) obtain j where j: "j < length rows" and rj: "name_is n2 (rows ! j)"
    by (auto simp: in_set_conv_nth)
  from ri rj assms(3) have ij: "i \<noteq> j" and nj: "\<not> name_is name (rows ! j)"
    by (auto simp: name_is_def)
  from i ri assms(4) have "(?rows' ! i) ''name'' = Some (PStr n2)"
    by (simp add: map_add_def)
  moreover from j nj rj have "(?rows' ! j) ''name'' = Some (PStr n2)"
    by (simp add: name_is_def)
  ultimately show False
    using unique_column_nth[OF u, of i j "PStr n2"] i j ij by simp
qed

lemma update_block_data_none_ignored:
  "update_block_data L w name set_fields = update_block_data L w name (not_none set_fields)"
  by (simp only: update_block_data_def not_none_idem)

lemma update_block_data_returned:
  assumes ret: "update_block_data L w name set_fields = Inr (b, w')"
  shows "b = (\<exists>r\<in>set (block_data w). name_is name r)
         \<and> length (block_data w') = length (block_data w)
         \<and> constraints_hold (block_data w')
         \<and> (\<forall>i<length (block_data w).
              (\<not> name_is name (block_data w ! i) \<longrightarrow> block_data w' ! i = block_data w ! i)
              \<and> (name_is name (block_data w ! i) \<longrightarrow>
                   (\<forall>k. (set_fields k = None \<or> set_fields k = Some PNone
                            \<longrightarrow> (block_data w' ! i) k = (block_data w ! i) k)
                        \<and> (\<forall>v. set_fields k = Some v \<and> v \<noteq> PNone \<and> k \<noteq> ''data''
                            \<longrightarrow> (block_data w' ! i) k = Some v))
                   \<and> (\<forall>d. set_fields ''data'' = Some d \<and> d \<noteq> PNone
                            \<longrightarrow> (\<exists>E w1. encrypt_blockdata L w d = Inr (E, w1)
                                   \<and> (block_data w' ! i) ''data'' = Some E))))"
proof -
  from update_block_data_statement[of set_fields L w name] ret
  obtain w1 vals where ex: "execute_update w1 name vals = Inr (b, w')"
    and rows: "block_data w1 = block_data w"
    and other: "\<forall>k. k \<noteq> ''data'' \<longrightarrow> vals k = not_none set_fields k"
    and nodata: "not_none set_fields ''data'' = None \<longrightarrow> vals ''data'' = None"
    and data: "\<forall>d. not_none set_fields ''data'' = Some d \<longrightarrow>
           (\<exists>E w2. encrypt_blockdata L w d = Inr (E, w2) \<and> vals ''data'' = Some E)"
    by (elim disjE exE conjE) simp_all
  let ?rows' = "map (\<lambda>r. if name_is name r then r ++ vals else r) (block_data w)"
  from ex have b: "b = (\<exists>r\<in>set (block_data w). name_is name r)"
    and ok: "constraints_hold ?rows'"
    and w': "block_data w' = ?rows'"
    by (simp_all add: execute_update_Inr rows)
  have unset: "(block_data w' ! i) k = (block_data w ! i) k"
    if "i < length (block_data w)" and "name_is name (block_data w ! i)"
      and "set_fields k = None \<or> set_fields k = Some PNone" for i k
  proof -
    from that(3) have "not_none set_fields k = None"
      by (simp add: not_none_eq_None)
    with other nodata have "vals k = None"
      by (cases "k = ''data''") simp_all
    with that(1,2) show ?thesis
      by (simp add: w' map_add_def)
  qed
  have provided: "(block_data w' ! i) k = Some v"
    if "i < length (block_data w)" and "name_is name (block_data w ! i)"
      and "set_fields k = Some v \<and> v \<noteq> PNone \<and> k \<noteq> ''data''" for i k v
  proof -
    from that(3) other have "vals k = Some v"
      by (simp add: not_none_eq_Some)
    with that(1,2) show ?thesis
      by (simp add: w' map_add_def)
  qed
  have envelope: "\<exists>E w1. encrypt_blockdata L w d = Inr (E, w1) \<and> (block_data w' ! i) ''data'' = Some E"
    if "i < length (block_data w)" and "name_is name (block_data w ! i)"
      and "set_fields ''data'' = Some d \<and> d \<noteq> PNone" for i d
  proof -
    from that(3) have "not_none set_fields ''data'' = Some d"
      by (simp add: not_none_eq_Some)
    with data obtain E w2 where "encrypt_blockdata L w d = Inr (E, w2)" and "vals ''data'' = Some E"
      by blast
    with that(1,2) show ?thesis
      by (auto simp: w' map_add_def)
  qed
  have same: "block_data w' ! i = block_data w ! i"
    if "i < length (block_data w)" and "\<not> name_is name (block_data w ! i)" for i
    using that by (simp add: w')
  from b ok w' unset provided envelope same show ?thesis
    by (intro conjI allI impI) simp_all
qed

lemma update_block_data_raised:
  assumes "update_block_data L w name set_fields = Inl e"
  shows "(\<exists>d. set_fields ''data'' = Some d \<and> d \<noteq> PNone \<and> encrypt_blockdata L w d = Inl e)
         \<or> e = IntegrityError"
proof -
  from update_block_data_statement[of set_fields L w name]
  show ?thesis
  proof (elim disjE exE conjE)
    fix d e'
    assume "not_none set_fields ''data'' = Some d" and "encrypt_blockdata L w d = Inl e'"
      and "update_block_data L w name set_fields = Inl e'"
    with assms show ?thesis
      by (auto simp: not_none_eq_Some)
  next
    fix w1 vals
    assume "update_block_data L w name set_fields = execute_update w1 name vals"
    with assms have "execute_update w1 name vals = Inl e"
      by simp
    then show ?thesis
      by (simp add: execute_update_Inl)
  qed
qed

lemma update_block_data_encryption_raises:
  assumes "set_fields ''data'' = Some d \<and> d \<noteq> PNone \<and> encrypt_blockdata L w d = Inl e"
  shows "update_block_data L w name set_fields = Inl e"
proof -
  from assms have "not_none set_fields ''data'' = Some d"
    by (simp add: not_none_eq_Some)
  with assms show ?thesis
    by (simp add: update_block_data_cases)
qed

lemma update_block_data_returns:
  assumes ok: "constraints_hold (block_data w)"
    and name: "set_fields ''name'' = None \<or> set_fields ''name'' = Some PNone"
    and ident: "set_fields ''id'' = None \<or> set_fields ''id'' = Some PNone"
    and enc: "\<forall>d. set_fields ''data'' = Some d \<and> d \<noteq> PNone
                \<longrightarrow> (\<exists>E w1. encrypt_blockdata L w d = Inr (E, w1))"
  shows "\<exists>b w'. update_block_data L w name set_fields = Inr (b, w')"
proof -
  from update_block_data_statement[of set_fields L w name]
  show ?thesis
  proof (elim disjE exE conjE)
    fix d e
    assume "not_none set_fields ''data'' = Some d" and "encrypt_blockdata L w d = Inl e"
    with enc show ?thesis
      by (auto simp: not_none_eq_Some)
  next
    fix w1 vals
    assume upd: "update_block_data L w name set_fields = execute_update w1 name vals"
      and rows: "block_data w1 = block_data w"
      and other: "\<forall>k. k \<noteq> ''data'' \<longrightarrow> vals k = not_none set_fields k"
    from name other have "vals ''name'' = None"
      by (simp add: not_none_eq_None)
    moreover from ident other have "vals ''id'' = None"
      by (simp add: not_none_eq_None)
    ultimately have "constraints_hold (map (\<lambda>r. if name_is name r then r ++ vals else r) (block_data w1))"
      using ok by (simp add: constraints_hold_def unique_column_untouched rows)
    then show ?thesis
      by (simp add: upd execute_update_def Let_def)
  qed
qed

lemma update_block_data_collision:
  assumes "set_fields ''name'' = Some (PStr n2) \<and> n2 \<noteq> name
            \<and> (\<exists>r\<in>set (block_data w). name_is name r) \<and> (\<exists>r\<in>set (block_data w). name_is n2 r)"
  shows "(\<exists>e. update_block_data L w name set_fields = Inl e)
         \<and> (set_fields ''data'' = None \<or> set_fields ''data'' = Some PNone
              \<longrightarrow> update_block_data L w name set_fields = Inl IntegrityError)"
proof -
  from update_block_data_statement[of set_fields L w name]
  have "\<exists>e. update_block_data L w name set_fields = Inl e
             \<and> (not_none set_fields ''data'' = None \<longrightarrow> e = IntegrityError)"
  proof (elim disjE exE conjE)
    fix d e
    assume "not_none set_fields ''data'' = Some d"
      and "update_block_data L w name set_fields = Inl e"
    then show ?thesis by simp
  next
    fix w1 vals
    assume upd: "update_block_data L w name set_fields = execute_update w1 name vals"
      and rows: "block_data w1 = block_data w"
      and other: "\<forall>k. k \<noteq> ''data'' \<longrightarrow> vals k = not_none set_fields k"
    from assms other have "vals ''name'' = Some (PStr n2)"
      by (simp add: not_none_eq_Some)
    with assms have "\<not> constraints_hold (map (\<lambda>r. if name_is name r then r ++ vals else r) (block_data w1))"
      by (intro rename_onto_existing_name[where ?n2.0 = n2]) (simp_all add: rows)
    then show ?thesis
      by (simp add: upd execute_update_def Let_def)
  qed
  then show ?thesis
    by (auto simp: not_none_eq_None)
qed

text \<open>
  Claim C7. \<^verbatim>\<open>update_block_data\<close>: a field set to \<^verbatim>\<open>None\<close> counts as not provided; in the rows
  with the given name the columns that were not provided keep their value and the provided
  ones take the new value, \<^verbatim>\<open>data\<close> taking the envelope of exactly the provided value; the
  other rows are unchanged; the result is \<^verbatim>\<open>True\<close> if and only if some row has the name. The
  call raises only what the encryption of a provided \<^verbatim>\<open>data\<close> raises, or the storage
  engine's \<^verbatim>\<open>IntegrityError\<close>; it returns when the table is sound, the encryption returns and
  neither \<^verbatim>\<open>name\<close> nor \<^verbatim>\<open>id\<close> is provided, and it raises when the new name is the name of
  another row.
\<close>

theorem update_block_data_sparse:
  "update_block_data L w name set_fields = update_block_data L w name (not_none set_fields)
   \<and> (\<forall>b w'. update_block_data L w name set_fields = Inr (b, w') \<longrightarrow>
         b = (\<exists>r\<in>set (block_data w). name_is name r)
         \<and> length (block_data w') = length (block_data w)
         \<and> constraints_hold (block_data w')
         \<and> (\<forall>i<length (block_data w).
              (\<not> name_is name (block_data w ! i) \<longrightarrow> block_data w' ! i = block_data w ! i)
              \<and> (name_is name (block_data w ! i) \<longrightarrow>
                   (\<forall>k. (set_fields k = None \<or> set_fields k = Some PNone
                            \<longrightarrow> (block_data w' ! i) k = (block_data w ! i) k)
                        \<and> (\<forall>v. set_fields k = Some v \<and> v \<noteq> PNone \<and> k \<noteq> ''data''
                            \<longrightarrow> (block_data w' ! i) k = Some v))
                   \<and> (\<forall>d. set_fields ''data'' = Some d \<and> d \<noteq> PNone
                            \<longrightarrow> (\<exists>E w1. encrypt_blockdata L w d = Inr (E, w1)
                                   \<and> (block_data w' ! i) ''data'' = Some E)))))
   \<and> (\<forall>e. update_block_data L w name set_fields = Inl e \<longrightarrow>
         (\<exists>d. set_fields ''data'' = Some d \<and> d \<noteq> PNone \<and> encrypt_blockdata L w d = Inl e)
         \<or> e = IntegrityError)
   \<and> (\<forall>d e. set_fields ''data'' = Some d \<and> d \<noteq> PNone \<and> encrypt_blockdata L w d = Inl e
         \<longrightarrow> update_block_data L w name set_fields = Inl e)
   \<and> (constraints_hold (block_data w)
         \<and> (set_fields ''name'' = None \<or> set_fields ''name'' = Some PNone)
         \<and> (set_fields ''id'' = None \<or> set_fields ''id'' = Some PNone)
         \<and> (\<forall>d. set_fields ''data'' = Some d \<and> d \<noteq> PNone
                \<longrightarrow> (\<exists>E w1. encrypt_blockdata L w d = Inr (E, w1)))
       \<longrightarrow> (\<exists>b w'. update_block_data L w name set_fields = Inr (b, w')))
   \<and> (\<forall>n2. set_fields ''name'' = Some (PStr n2) \<and> n2 \<noteq> name
            \<and> (\<exists>r\<in>set (block_data w). name_is name r) \<and> (\<exists>r\<in>set (block_data w). name_is n2 r)
         \<longrightarrow> (\<exists>e. update_block_data L w name set_fields = Inl e)
             \<and> (set_fields ''data'' = None \<or> set_fields ''data'' = Some PNone
                  \<longrightarrow> update_block_data L w name set_fields = Inl IntegrityError))"
proof (intro conjI allI impI)
  show "update_block_data L w name set_fields = update_block_data L w name (not_none set_fields)"
    by (rule update_block_data_none_ignored)
next
  fix e
  assume "update_block_data L w name set_fields = Inl e"
  then show "(\<exists>d. set_fields ''data'' = Some d \<and> d \<noteq> PNone \<and> encrypt_blockdata L w d = Inl e)
         \<or> e = IntegrityError"
    by (rule update_block_data_raised)
next
  fix d e
  assume "set_fields ''data'' = Some d \<and> d \<noteq> PNone \<and> encrypt_blockdata L w d = Inl e"
  then show "update_block_data L w name set_fields = Inl e"
    by (rule update_block_data_encryption_raises)
next
  assume "constraints_hold (block_data w)
         \<and> (set_fields ''name'' = None \<or> set_fields ''name'' = Some PNone)
         \<and> (set_fields ''id'' = None \<or> set_fields ''id'' = Some PNone)
         \<and> (\<forall>d. set_fields ''data'' = Some d \<and> d \<noteq> PNone
                \<longrightarrow> (\<exists>E w1. encrypt_blockdata L w d = Inr (E, w1)))"
  then show "\<exists>b w'. update_block_data L w name set_fields = Inr (b, w')"
    by (intro update_block_data_returns) simp_all
next
  fix n2
  assume c: "set_fields ''name'' = Some (PStr n2) \<and> n2 \<noteq> name
            \<and> (\<exists>r\<in>set (block_data w). name_is name r) \<and> (\<exists>r\<in>set (block_data w). name_is n2 r)"
  note C = update_block_data_collision[where set_fields = set_fields and name = name
      and w = w and L = L and ?n2.0 = n2, OF c]
  from C show "\<exists>e. update_block_data L w name set_fields = Inl e" by simp
  {
    assume "set_fields ''data'' = None \<or> set_fields ''data'' = Some PNone"
    with C show "update_block_data L w name set_fields = Inl IntegrityError" by simp
  }
next
  fix b w'
  assume ret: "update_block_data L w name set_fields = Inr (b, w')"
  note R = update_block_data_returned[OF ret]
  from R show "b = (\<exists>r\<in>set (block_data w). name_is name r)" by simp
  from R show "length (block_data w') = length (block_data w)" by simp
  from R show "constraints_hold (block_data w')" by simp
  fix i
  assume i: "i < length (block_data w)"
  {
    assume "\<not> name_is name (block_data w ! i)"
    with R i show "block_data w' ! i = block_data w ! i" by simp
  }
  assume n: "name_is name (block_data w ! i)"
  {
    fix k
    assume "set_fields k = None \<or> set_fields k = Some PNone"
    with R i n show "(block_data w' ! i) k = (block_data w ! i) k" by blast
  }
  {
    fix k v
    assume "set_fields k = Some v \<and> v \<noteq> PNone \<and> k \<noteq> ''data''"
    with R i n show "(block_data w' ! i) k = Some v" by blast
  }
  {
    fix d
    assume "set_fields ''data'' = Some d \<and> d \<noteq> PNone"
    with R i n show "\<exists>E w1. encrypt_blockdata L w d = Inr (E, w1) \<and> (block_data w' ! i) ''data'' = Some E"
      by blast
  }
qed

theorem update_block_data_sparse_witness:
  "example_update ''blockref'' = Some PNone
   \<and> example_update ''data'' = Some (PDict [''token'' \<mapsto> PStr ''xyz''])
   \<and> PDict [''token'' \<mapsto> PStr ''xyz''] \<noteq> PNone
   \<and> example_update ''name'' = None \<and> example_update ''id'' = None
   \<and> constraints_hold (block_data stored_world)
   \<and> (0::nat) < length (block_data stored_world)
   \<and> name_is ''k1'' (block_data stored_world ! 0)
   \<and> (\<exists>w'. update_block_data demo_libs stored_world ''k1'' example_update = Inr (True, w')
          \<and> (block_data w' ! 0) ''blockref'' = Some (PStr ''secret-block'')
          \<and> (block_data w' ! 0) ''data''
              = Some (PDict [''encrypted_blob'' \<mapsto> PStr ''KEY0{token: xyz}'']))
   \<and> rename_update ''name'' = Some (PStr ''k2'') \<and> ''k2'' \<noteq> ''k1''
   \<and> rename_update ''data'' = None
   \<and> (\<exists>r\<in>set (block_data two_rows_world). name_is ''k1'' r)
   \<and> (\<exists>r\<in>set (block_data two_rows_world). name_is ''k2'' r)
   \<and> update_block_data demo_libs two_rows_world ''k1'' rename_update = Inl IntegrityError"
proof -
  note T = update_block_data_sparse[of demo_libs stored_world "''k1''" example_update]
  have ref: "example_update ''blockref'' = Some PNone"
    and dat: "example_update ''data'' = Some (PDict [''token'' \<mapsto> PStr ''xyz'']) \<and> PDict [''token'' \<mapsto> PStr ''xyz''] \<noteq> PNone"
    and nam: "example_update ''name'' = None" and idn: "example_update ''id'' = None"
    by (simp_all add: example_update_def)
  have ok: "constraints_hold (block_data stored_world)"
    by (simp add: constraints_hold_def unique_column_def List.map_filter_simps stored_world_def
        stored_row_def)
  have i: "(0::nat) < length (block_data stored_world)"
    and nm: "name_is ''k1'' (block_data stored_world ! 0)"
    by (simp_all add: stored_world_def stored_row_def name_is_def)
  have enc: "encrypt_blockdata demo_libs stored_world (PDict [''token'' \<mapsto> PStr ''xyz''])
      = Inr (PDict [''encrypted_blob'' \<mapsto> PStr ''KEY0{token: xyz}''], stored_world\<lparr>entropy := 3\<rparr>)"
    by (simp add: encrypt_blockdata_def get_fernet_encryption_def os_getenv_def
      read_configuration_by_key_def stored_world_def configured_key_fernet_def str_field_def
      bytes_decode_def str_encode_def Fernet_init_def demo_libs_def key_entry_def Let_def)
  have encs: "\<forall>d. example_update ''data'' = Some d \<and> d \<noteq> PNone
                \<longrightarrow> (\<exists>E w1. encrypt_blockdata demo_libs stored_world d = Inr (E, w1))"
    using enc dat by auto
  note returns = T[THEN conjunct2, THEN conjunct2, THEN conjunct2, THEN conjunct2, THEN conjunct1]
  from ok nam idn encs
  have "constraints_hold (block_data stored_world)
         \<and> (example_update ''name'' = None \<or> example_update ''name'' = Some PNone)
         \<and> (example_update ''id'' = None \<or> example_update ''id'' = Some PNone)
         \<and> (\<forall>d. example_update ''data'' = Some d \<and> d \<noteq> PNone
                \<longrightarrow> (\<exists>E w1. encrypt_blockdata demo_libs stored_world d = Inr (E, w1)))"
    by simp
  from returns[THEN mp, OF this]
  obtain b w' where ret: "update_block_data demo_libs stored_world ''k1'' example_update = Inr (b, w')"
    by blast
  from T[THEN conjunct2, THEN conjunct1, THEN spec, THEN spec, THEN mp, OF ret]
  have b: "b = (\<exists>r\<in>set (block_data stored_world). name_is ''k1'' r)"
    and rows: "\<forall>i<length (block_data stored_world).
              (\<not> name_is ''k1'' (block_data stored_world ! i) \<longrightarrow> block_data w' ! i = block_data stored_world ! i)
              \<and> (name_is ''k1'' (block_data stored_world ! i) \<longrightarrow>
                   (\<forall>k. (example_update k = None \<or> example_update k = Some PNone
                            \<longrightarrow> (block_data w' ! i) k = (block_data stored_world ! i) k)
                        \<and> (\<forall>v. example_update k = Some v \<and> v \<noteq> PNone \<and> k \<noteq> ''data''
                            \<longrightarrow> (block_data w' ! i) k = Some v))
                   \<and> (\<forall>d. example_update ''data'' = Some d \<and> d \<noteq> PNone
                            \<longrightarrow> (\<exists>E w1. encrypt_blockdata demo_libs stored_world d = Inr (E, w1)
                                   \<and> (block_data w' ! i) ''data'' = Some E)))"
    by simp_all
  from b have "b = True"
    by (simp add: stored_world_def stored_row_def name_is_def)
  with ret have r1: "update_block_data demo_libs stored_world ''k1'' example_update = Inr (True, w')"
    by simp
  from rows[THEN spec, THEN mp, OF i, THEN conjunct2, THEN mp, OF nm] ref
  have "(block_data w' ! 0) ''blockref'' = (block_data stored_world ! 0) ''blockref''"
    by simp
  then have r2: "(block_data w' ! 0) ''blockref'' = Some (PStr ''secret-block'')"
    by (simp add: stored_world_def stored_row_def)
  from rows[THEN spec, THEN mp, OF i, THEN conjunct2, THEN mp, OF nm] dat
  obtain E w1 where "encrypt_blockdata demo_libs stored_world (PDict [''token'' \<mapsto> PStr ''xyz'']) = Inr (E, w1)"
    and "(block_data w' ! 0) ''data'' = Some E"
    by blast
  with enc have r3: "(block_data w' ! 0) ''data'' = Some (PDict [''encrypted_blob'' \<mapsto> PStr ''KEY0{token: xyz}''])"
    by simp
  note T2 = update_block_data_sparse[of demo_libs two_rows_world "''k1''" rename_update]
  have rn: "rename_update ''name'' = Some (PStr ''k2'') \<and> ''k2'' \<noteq> ''k1''
            \<and> (\<exists>r\<in>set (block_data two_rows_world). name_is ''k1'' r)
            \<and> (\<exists>r\<in>set (block_data two_rows_world). name_is ''k2'' r)"
    by (simp add: rename_update_def two_rows_world_def stored_world_def stored_row_def
        second_row_def name_is_def)
  have rd: "rename_update ''data'' = None"
    by (simp add: rename_update_def)
  from T2[THEN conjunct2, THEN conjunct2, THEN conjunct2, THEN conjunct2, THEN conjunct2,
      THEN spec, THEN mp, OF rn] rd
  have r4: "update_block_data demo_libs two_rows_world ''k1'' rename_update = Inl IntegrityError"
    by simp
  from r1 r2 r3 have "\<exists>w'. update_block_data demo_libs stored_world ''k1'' example_update = Inr (True, w')
          \<and> (block_data w' ! 0) ''blockref'' = Some (PStr ''secret-block'')
          \<and> (block_data w' ! 0) ''data''
              = Some (PDict [''encrypted_blob'' \<mapsto> PStr ''KEY0{token: xyz}''])"
    by blast
  with ref dat nam idn ok i nm rn rd r4 show ?thesis
    by simp
qed

end
